theory Spec2Isabelle
  imports Complex_Main "HOL-Library.Sublist"
begin

section \<open>Data model\<close>

text \<open>
  The script \<^verbatim>\<open>fetch_namespace_modules.py\<close> renders a template, runs the external
  \<^verbatim>\<open>kda\<close> tool twice, decodes the tool's JSON answer and writes one \<^verbatim>\<open>.pact\<close> file per
  module. Python strings are modelled as \<^typ>\<open>string\<close>, one \<^typ>\<open>char\<close> per code point
  (code points below 256). The values \<^verbatim>\<open>json.loads\<close> returns are the type \<open>json\<close>: a
  Python \<^verbatim>\<open>dict\<close> is an association list read with \<^const>\<open>map_of\<close>, a Python \<^verbatim>\<open>list\<close> a list.
\<close>

datatype pyfloat = Finite rat | PosInf | NegInf | NaN

datatype json =
    JNull
  | JBool bool
  | JInt int
  | JFloat pyfloat
  | JStr string
  | JArr "json list"
  | JObj "(string \<times> json) list"

text \<open>
  Exceptions the script can meet. \<open>OSError\<close> stands for a failure the operating system
  reports for reasons outside the model (permissions, a full disk); the three named
  subclasses are the ones the model itself decides.
\<close>

datatype exn =
    KeyError string
  | TypeError
  | AttributeError
  | ValueError
  | FileNotFoundError
  | FileExistsError
  | IsADirectoryError
  | OSError

text \<open>
  How a run stops early: \<^verbatim>\<open>sys.exit(n)\<close>, or an exception no handler catches. Both end
  the process; \<open>exit_status\<close> is the status the interpreter then reports.
\<close>

datatype stop = SystemExit int | Uncaught exn

fun exit_status :: "stop \<Rightarrow> int" where
  "exit_status (SystemExit n) = n"
| "exit_status (Uncaught e) = 1"

text \<open>
  One constructor per \<^verbatim>\<open>print(..., file=sys.stderr)\<close> of the script, with the values the
  message interpolates (the text of a caught exception is left out). \<open>Traceback\<close> is what
  the interpreter prints for an uncaught exception.
\<close>

datatype message =
    Error_template_missing string
  | Error_read_template
  | Error_write_substituted
  | Error_generate_json string
  | Error_json_not_created
  | Error_kda_local string
  | Error_parse_json
  | Error_url_not_found string
  | Error_expected_list
  | Warning_missing_key string
  | Warning_data_not_list
  | Warning_missing_name_or_code
  | Error_create_directory json
  | Error_write_file string
  | Warning_delete_temporary
  | Traceback exn

text \<open>
  The world the script acts on: regular files by path with their content, the
  directories that exist, and what has been printed to the error stream. Paths are
  compared as strings.
\<close>

record world =
  files :: "string \<rightharpoonup> string"
  dirs :: "string set"
  stderr :: "message list"

text \<open>
  What the script cannot decide itself: the working directory, which operations the
  operating system refuses, what the shell command does, and \<^verbatim>\<open>json.loads\<close>
  (\<open>None\<close> is \<^verbatim>\<open>JSONDecodeError\<close>).
\<close>

record env =
  cwd :: string
  mkdir_denied :: "string \<Rightarrow> bool"
  open_denied :: "string \<Rightarrow> bool"
  write_denied :: "string \<Rightarrow> bool"
  read_denied :: "string \<Rightarrow> bool"
  remove_denied :: "string \<Rightarrow> bool"
  shell :: "string \<Rightarrow> world \<Rightarrow> (int \<times> string \<times> string) \<times> world"
  json_loads :: "string \<Rightarrow> json option"

text \<open>
  The namespace \<^verbatim>\<open>parse_arguments\<close> returns. The model of a run starts from it: what
  \<^verbatim>\<open>argparse\<close> does with a malformed command line is not part of it.
\<close>

record args =
  args_network_url :: string
  args_chain :: string
  args_namespace :: string

definition print_stderr :: "message \<Rightarrow> world \<Rightarrow> world" where
  "print_stderr m w = w\<lparr>stderr := stderr w @ [m]\<rparr>"

definition sys_exit :: "int \<Rightarrow> world \<Rightarrow> (stop \<times> world) + 'a" where
  "sys_exit n w = Inl (SystemExit n, w)"

section \<open>Template renderer\<close>

text \<open>
  The class \<^verbatim>\<open>\w\<close> of a Python 3 \<^verbatim>\<open>str\<close> pattern on the code points below 256:
  the ASCII letters, digits and underscore, and the Latin-1 letters and numerics.
\<close>

definition is_word :: "char \<Rightarrow> bool" where
  "is_word c =
     (let n = (of_char c :: nat) in
        (48 \<le> n \<and> n \<le> 57) \<or> (65 \<le> n \<and> n \<le> 90) \<or> n = 95 \<or> (97 \<le> n \<and> n \<le> 122) \<or>
        n \<in> {170, 178, 179, 181, 185, 186, 188, 189, 190} \<or>
        (192 \<le> n \<and> n \<le> 214) \<or> (216 \<le> n \<and> n \<le> 246) \<or> 248 \<le> n)"

text \<open>
  \<^verbatim>\<open>pattern.match\<close> of \<^verbatim>\<open>\{\{\{(\w+)\}\}\}\<close> at the head of a text: three opening braces,
  the longest run of word characters (the greedy \<^verbatim>\<open>\w+\<close>; giving characters back never
  helps, since the next character would be a word character and not a brace), three
  closing braces. The result is group 1 and the text after the match.
\<close>

definition pattern_match :: "string \<Rightarrow> (string \<times> string) option" where
  "pattern_match s =
     (case s of
        c1 # c2 # c3 # r \<Rightarrow>
          if c1 = CHR ''{'' \<and> c2 = CHR ''{'' \<and> c3 = CHR ''{'' then
            (let k = takeWhile is_word r; r' = dropWhile is_word r in
             if k \<noteq> [] \<and> take 3 r' = ''}}}'' then Some (k, drop 3 r') else None)
          else None
      | _ \<Rightarrow> None)"

text \<open>
  \<^verbatim>\<open>pattern.sub(repl, text)\<close>: scan from the left; at a match, emit what \<open>repl\<close> returns
  for (group 0, group 1) and go on after the match; otherwise copy one character.
\<close>

function pattern_sub :: "(string \<times> string \<Rightarrow> string) \<Rightarrow> string \<Rightarrow> string" where
  "pattern_sub repl [] = []"
| "pattern_sub repl (c # cs) =
     (case pattern_match (c # cs) of
        Some (k, rest) \<Rightarrow> repl (''{{{'' @ k @ ''}}}'', k) @ pattern_sub repl rest
      | None \<Rightarrow> c # pattern_sub repl cs)"
  by pat_completeness auto
termination
proof (relation "measure (\<lambda>(repl, s). length s)")
  show "wf (measure (\<lambda>(repl :: string \<times> string \<Rightarrow> string, s :: string). length s))"
    by simp
next
  fix repl :: "string \<times> string \<Rightarrow> string" and c cs x2 x y
  assume "pattern_match (c # cs) = Some x2" and "(x, y) = x2"
  then obtain r where "c # cs = ''{{{'' @ r" and "y = drop 3 (dropWhile is_word r)"
    by (auto simp: pattern_match_def Let_def split: list.splits if_splits)
  moreover have "length (dropWhile is_word r) \<le> length r"
    by (rule length_dropWhile_le)
  ultimately have "length y < length (c # cs)"
    by simp
  then show "((repl, y), (repl, c # cs)) \<in> measure (\<lambda>(repl, s). length s)"
    by simp
next
  fix repl :: "string \<times> string \<Rightarrow> string" and c cs
  show "((repl, cs), (repl, c # cs)) \<in> measure (\<lambda>(repl, s). length s)"
    by simp
qed

text \<open>The inner function \<^verbatim>\<open>replacer\<close>: a match is the pair (group 0, group 1).\<close>

definition replacer :: "(string \<rightharpoonup> string) \<Rightarrow> string \<times> string \<Rightarrow> string" where
  "replacer substitutions m =
     (let key = snd m in
      case substitutions key of Some v \<Rightarrow> v | None \<Rightarrow> fst m)"

definition substitute_placeholders :: "string \<Rightarrow> (string \<rightharpoonup> string) \<Rightarrow> string" where
  "substitute_placeholders template_content substitutions =
     pattern_sub (replacer substitutions) template_content"

text \<open>A key the pattern's group can capture: a non-empty run of word characters.\<close>

definition word_key :: "string \<Rightarrow> bool" where
  "word_key k = (k \<noteq> [] \<and> list_all is_word k)"

text \<open>A text in which no placeholder with such a key occurs.\<close>

definition placeholder_free :: "string \<Rightarrow> bool" where
  "placeholder_free t =
     (\<forall>pre k post. word_key k \<longrightarrow> t \<noteq> pre @ ''{{{'' @ k @ ''}}}'' @ post)"

section \<open>Operating system calls\<close>

text \<open>
  \<^verbatim>\<open>os.path.join(a, b)\<close> of \<^verbatim>\<open>posixpath\<close>, for two components: an absolute \<open>b\<close> replaces
  \<open>a\<close>; no separator is added after an empty \<open>a\<close> or one that ends with a slash.
\<close>

definition os_path_join :: "string \<Rightarrow> string \<Rightarrow> string" where
  "os_path_join a b =
     (if take 1 b = ''/'' then b
      else if a = [] \<or> take 1 (rev a) = ''/'' then a @ b
      else a @ ''/'' @ b)"

text \<open>
  \<^verbatim>\<open>os.path.abspath\<close> of a relative name: the name joined to the working directory
  (\<^verbatim>\<open>os.getcwd()\<close> is already normal, and the names used contain no dots to resolve).
\<close>

definition os_path_abspath :: "env \<Rightarrow> string \<Rightarrow> string" where
  "os_path_abspath env p = os_path_join (cwd env) p"

definition os_path_isfile :: "string \<Rightarrow> world \<Rightarrow> bool" where
  "os_path_isfile p w = (files w p \<noteq> None)"

text \<open>
  \<^verbatim>\<open>os.makedirs(p, exist_ok=...)\<close>. The empty path cannot be created
  (\<^verbatim>\<open>FileNotFoundError\<close>); an existing directory is accepted only with \<^verbatim>\<open>exist_ok\<close>;
  a regular file in the way is \<^verbatim>\<open>FileExistsError\<close>; otherwise the operating system
  decides. Only the directory named is recorded, not the parents created on the way.
\<close>

definition os_makedirs :: "env \<Rightarrow> string \<Rightarrow> bool \<Rightarrow> world \<Rightarrow> exn + world" where
  "os_makedirs env p exist_ok w =
     (if p = [] then Inl FileNotFoundError
      else if p \<in> dirs w then (if exist_ok then Inr w else Inl FileExistsError)
      else if files w p \<noteq> None then Inl FileExistsError
      else if mkdir_denied env p then Inl OSError
      else Inr (w\<lparr>dirs := insert p (dirs w)\<rparr>))"

text \<open>
  The argument of \<^verbatim>\<open>os.makedirs\<close> and the first argument of \<^verbatim>\<open>os.path.join\<close> is
  whatever the script computed as \<^verbatim>\<open>namespace\<close>; anything but a string is a
  \<^verbatim>\<open>TypeError\<close>.
\<close>

definition py_makedirs :: "env \<Rightarrow> json \<Rightarrow> bool \<Rightarrow> world \<Rightarrow> exn + world" where
  "py_makedirs env namespace exist_ok w =
     (case namespace of
        JStr p \<Rightarrow> os_makedirs env p exist_ok w
      | _ \<Rightarrow> Inl TypeError)"

definition py_path_join :: "json \<Rightarrow> string \<Rightarrow> exn + string" where
  "py_path_join namespace b =
     (case namespace of
        JStr p \<Rightarrow> Inr (os_path_join p b)
      | _ \<Rightarrow> Inl TypeError)"

text \<open>
  \<^verbatim>\<open>open(p, "w")\<close> creates the file or truncates it; \<^verbatim>\<open>f.write(data)\<close> then stores the
  text, and is a \<^verbatim>\<open>TypeError\<close> for anything but a string. \<open>write_file\<close> is the block
  \<^verbatim>\<open>with open(p, "w") as f: f.write(data)\<close>; when it raises, the world is returned as the
  failure left it.
\<close>

definition open_w :: "env \<Rightarrow> string \<Rightarrow> world \<Rightarrow> exn + world" where
  "open_w env p w =
     (if p = [] then Inl FileNotFoundError
      else if p \<in> dirs w then Inl IsADirectoryError
      else if open_denied env p then Inl OSError
      else Inr (w\<lparr>files := (files w)(p \<mapsto> [])\<rparr>))"

definition f_write :: "env \<Rightarrow> string \<Rightarrow> json \<Rightarrow> world \<Rightarrow> exn + world" where
  "f_write env p data w =
     (case data of
        JStr s \<Rightarrow>
          if write_denied env p then Inl OSError
          else Inr (w\<lparr>files := (files w)(p \<mapsto> s)\<rparr>)
      | _ \<Rightarrow> Inl TypeError)"

definition write_file :: "env \<Rightarrow> string \<Rightarrow> json \<Rightarrow> world \<Rightarrow> (exn \<times> world) + world" where
  "write_file env p data w =
     (case open_w env p w of
        Inl e \<Rightarrow> Inl (e, w)
      | Inr w1 \<Rightarrow>
          (case f_write env p data w1 of
             Inl e \<Rightarrow> Inl (e, w1)
           | Inr w2 \<Rightarrow> Inr w2))"

text \<open>\<^verbatim>\<open>with open(p, "r") as f: f.read()\<close>.\<close>

definition read_file :: "env \<Rightarrow> string \<Rightarrow> world \<Rightarrow> exn + string" where
  "read_file env p w =
     (if read_denied env p then Inl OSError
      else case files w p of None \<Rightarrow> Inl FileNotFoundError | Some content \<Rightarrow> Inr content)"

definition os_remove :: "env \<Rightarrow> string \<Rightarrow> world \<Rightarrow> exn + world" where
  "os_remove env p w =
     (if files w p = None then Inl FileNotFoundError
      else if remove_denied env p then Inl OSError
      else Inr (w\<lparr>files := (files w)(p := None)\<rparr>))"

section \<open>External tool invoker\<close>

text \<open>
  \<^verbatim>\<open>run_command\<close> awaits the shell command and returns its exit code and its captured
  output, decoded (decoding is taken to succeed); the command's own error output goes
  to a pipe, not to the script's error stream.
\<close>

definition run_command :: "env \<Rightarrow> string \<Rightarrow> world \<Rightarrow> (int \<times> string \<times> string) \<times> world" where
  "run_command env command w =
     (let (r, w') = shell env command w in (r, w'\<lparr>stderr := stderr w\<rparr>))"

definition dquote :: string where
  "dquote = [CHR 0x22]"

text \<open>The two command lines, lines 65 and 81.\<close>

definition kda_gen_command :: "string \<Rightarrow> string \<Rightarrow> string" where
  "kda_gen_command template_path json_path =
     ''kda gen -t '' @ dquote @ template_path @ dquote @ '' -o '' @ dquote @ json_path @ dquote"

definition kda_local_command :: "string \<Rightarrow> string \<Rightarrow> string" where
  "kda_local_command json_path network_url =
     ''kda local '' @ dquote @ json_path @ dquote @ '' -n '' @ dquote @ network_url @ dquote"

definition generate_json :: "env \<Rightarrow> string \<Rightarrow> string \<Rightarrow> world \<Rightarrow> (stop \<times> world) + world" where
  "generate_json env template_path json_path w =
     (let command = kda_gen_command template_path json_path;
          ((returncode, out, err), w1) = run_command env command w
      in if returncode \<noteq> 0 then sys_exit 1 (print_stderr (Error_generate_json err) w1)
         else if \<not> os_path_isfile json_path w1 then
           sys_exit 1 (print_stderr Error_json_not_created w1)
         else Inr w1)"

definition run_kda_local ::
  "env \<Rightarrow> string \<Rightarrow> string \<Rightarrow> world \<Rightarrow> (stop \<times> world) + (string \<times> world)" where
  "run_kda_local env json_path network_url w =
     (let command = kda_local_command json_path network_url;
          ((returncode, out, err), w1) = run_command env command w
      in if returncode \<noteq> 0 then sys_exit 1 (print_stderr (Error_kda_local err) w1)
         else Inr (out, w1))"

section \<open>Response extractor and file writer\<close>

text \<open>Truth value of a decoded JSON value, as \<^verbatim>\<open>not x\<close> tests it.\<close>

fun py_truthy :: "json \<Rightarrow> bool" where
  "py_truthy JNull = False"
| "py_truthy (JBool b) = b"
| "py_truthy (JInt i) = (i \<noteq> 0)"
| "py_truthy (JFloat f) = (f \<noteq> Finite 0)"
| "py_truthy (JStr s) = (s \<noteq> [])"
| "py_truthy (JArr xs) = (xs \<noteq> [])"
| "py_truthy (JObj kvs) = (kvs \<noteq> [])"

text \<open>
  \<^verbatim>\<open>x[k]\<close> for a string \<open>k\<close>: a dictionary without the key raises \<^verbatim>\<open>KeyError\<close>; every
  other kind of value raises \<^verbatim>\<open>TypeError\<close>.
\<close>

fun py_getitem :: "json \<Rightarrow> string \<Rightarrow> exn + json" where
  "py_getitem (JObj kvs) k = (case map_of kvs k of None \<Rightarrow> Inl (KeyError k) | Some v \<Rightarrow> Inr v)"
| "py_getitem v k = Inl TypeError"

text \<open>
  \<^verbatim>\<open>s in x\<close> for a string \<open>s\<close>: a key of a dictionary, an element of a list, a substring
  of a string; the other values are not iterable.
\<close>

fun py_in :: "string \<Rightarrow> json \<Rightarrow> exn + bool" where
  "py_in s (JObj kvs) = Inr (map_of kvs s \<noteq> None)"
| "py_in s (JArr xs) = Inr (JStr s \<in> set xs)"
| "py_in s (JStr t) = Inr (sublist s t)"
| "py_in s v = Inl TypeError"

text \<open>\<^verbatim>\<open>x.get(k)\<close>: only a dictionary has the method.\<close>

fun py_get :: "json \<Rightarrow> string \<Rightarrow> exn + json" where
  "py_get (JObj kvs) k = Inr (case map_of kvs k of None \<Rightarrow> JNull | Some v \<Rightarrow> v)"
| "py_get v k = Inl AttributeError"

text \<open>
  \<^verbatim>\<open>s.rsplit(sep, 1)\<close> for a one-character separator: split at the last occurrence,
  or the whole string when there is none. Only a string has the method.
\<close>

definition rsplit1 :: "char \<Rightarrow> string \<Rightarrow> string list" where
  "rsplit1 sep s =
     (if sep \<in> set s then
        [rev (drop 1 (dropWhile (\<lambda>c. c \<noteq> sep) (rev s))), rev (takeWhile (\<lambda>c. c \<noteq> sep) (rev s))]
      else [s])"

fun py_rsplit1 :: "json \<Rightarrow> char \<Rightarrow> exn + string list" where
  "py_rsplit1 (JStr s) sep = Inr (rsplit1 sep s)"
| "py_rsplit1 v sep = Inl AttributeError"

text \<open>
  Lines 141 to 146: the namespace and the module name. The namespace stays whatever
  \<^verbatim>\<open>name\<close> is when the membership test finds no dot.
\<close>

definition split_name :: "json \<Rightarrow> exn + (json \<times> string)" where
  "split_name name =
     (case py_in ''.'' name of
        Inl e \<Rightarrow> Inl e
      | Inr has_dot \<Rightarrow>
          if has_dot then
            (case py_rsplit1 name (CHR ''.'') of
               Inl e \<Rightarrow> Inl e
             | Inr [a, b] \<Rightarrow> Inr (JStr a, b)
             | Inr _ \<Rightarrow> Inl ValueError)
          else Inr (name, ''KDA''))"

text \<open>
  Lines 148 to 169: create the directory, then write the file. Both \<^verbatim>\<open>try\<close> blocks
  catch \<^verbatim>\<open>Exception\<close>; the first handler ends with \<^verbatim>\<open>continue\<close>. The call of
  \<^verbatim>\<open>os.path.join\<close> stands outside both.
\<close>

definition write_module ::
  "env \<Rightarrow> json \<Rightarrow> string \<Rightarrow> json \<Rightarrow> world \<Rightarrow> (stop \<times> world) + world" where
  "write_module env namespace module_name code w =
     (case py_makedirs env namespace True w of
        Inl e \<Rightarrow> Inr (print_stderr (Error_create_directory namespace) w)
      | Inr w1 \<Rightarrow>
          (case py_path_join namespace (module_name @ ''.pact'') of
             Inl e \<Rightarrow> Inl (Uncaught e, w1)
           | Inr filename \<Rightarrow>
               (case write_file env filename code w1 of
                  Inl (e, w2) \<Rightarrow> Inr (print_stderr (Error_write_file filename) w2)
                | Inr w2 \<Rightarrow> Inr w2)))"

text \<open>The body of the inner loop, lines 131 to 169, for one element of the list.\<close>

definition process_module :: "env \<Rightarrow> json \<Rightarrow> world \<Rightarrow> (stop \<times> world) + world" where
  "process_module env modul w =
     (case py_get modul ''name'' of
        Inl e \<Rightarrow> Inl (Uncaught e, w)
      | Inr name \<Rightarrow>
          (case py_get modul ''code'' of
             Inl e \<Rightarrow> Inl (Uncaught e, w)
           | Inr code \<Rightarrow>
               if \<not> py_truthy name \<or> \<not> py_truthy code then
                 Inr (print_stderr Warning_missing_name_or_code w)
               else
                 (case split_name name of
                    Inl e \<Rightarrow> Inl (Uncaught e, w)
                  | Inr (namespace, module_name) \<Rightarrow>
                      write_module env namespace module_name code w)))"

fun process_modules :: "env \<Rightarrow> json list \<Rightarrow> world \<Rightarrow> (stop \<times> world) + world" where
  "process_modules env [] w = Inr w"
| "process_modules env (modul # rest) w =
     (case process_module env modul w of
        Inl a \<Rightarrow> Inl a
      | Inr w' \<Rightarrow> process_modules env rest w')"

text \<open>\<^verbatim>\<open>entry["body"]["result"]["data"]\<close>, left to right.\<close>

definition result_data_of :: "json \<Rightarrow> exn + json" where
  "result_data_of entry =
     (case py_getitem entry ''body'' of
        Inl e \<Rightarrow> Inl e
      | Inr body \<Rightarrow>
          (case py_getitem body ''result'' of
             Inl e \<Rightarrow> Inl e
           | Inr result \<Rightarrow> py_getitem result ''data''))"

text \<open>
  The body of the outer loop, lines 116 to 169. The handler catches \<^verbatim>\<open>KeyError\<close> only,
  so any other exception of the lookup leaves the function.
\<close>

definition process_entry :: "env \<Rightarrow> json \<Rightarrow> world \<Rightarrow> (stop \<times> world) + world" where
  "process_entry env entry w =
     (case result_data_of entry of
        Inl (KeyError k) \<Rightarrow> Inr (print_stderr (Warning_missing_key k) w)
      | Inl e \<Rightarrow> Inl (Uncaught e, w)
      | Inr result_data \<Rightarrow>
          (case result_data of
             JArr modules \<Rightarrow> process_modules env modules w
           | _ \<Rightarrow> Inr (print_stderr Warning_data_not_list w)))"

fun process_entries :: "env \<Rightarrow> json list \<Rightarrow> world \<Rightarrow> (stop \<times> world) + world" where
  "process_entries env [] w = Inr w"
| "process_entries env (entry # rest) w =
     (case process_entry env entry w of
        Inl a \<Rightarrow> Inl a
      | Inr w' \<Rightarrow> process_entries env rest w')"

definition parse_and_create_files ::
  "env \<Rightarrow> string \<Rightarrow> string \<Rightarrow> world \<Rightarrow> (stop \<times> world) + world" where
  "parse_and_create_files env json_output network_url w =
     (case json_loads env json_output of
        None \<Rightarrow> sys_exit 1 (print_stderr Error_parse_json w)
      | Some data \<Rightarrow>
          (case py_in network_url data of
             Inl e \<Rightarrow> Inl (Uncaught e, w)
           | Inr present \<Rightarrow>
               if \<not> present then
                 sys_exit 1 (print_stderr (Error_url_not_found network_url) w)
               else
                 (case py_getitem data network_url of
                    Inl e \<Rightarrow> Inl (Uncaught e, w)
                  | Inr network_data \<Rightarrow>
                      (case network_data of
                         JArr entries \<Rightarrow> process_entries env entries w
                       | _ \<Rightarrow> sys_exit 1 (print_stderr Error_expected_list w)))))"

section \<open>The main program\<close>

text \<open>
  Lines 224 to 231: one \<^verbatim>\<open>try\<close> block around both \<^verbatim>\<open>os.remove\<close> calls, one handler.
\<close>

definition cleanup :: "env \<Rightarrow> string \<Rightarrow> string \<Rightarrow> world \<Rightarrow> world" where
  "cleanup env json_file substituted_yaml_path w =
     (case os_remove env json_file w of
        Inl e \<Rightarrow> print_stderr Warning_delete_temporary w
      | Inr w1 \<Rightarrow>
          (case os_remove env substituted_yaml_path w1 of
             Inl e \<Rightarrow> print_stderr Warning_delete_temporary w1
           | Inr w2 \<Rightarrow> w2))"

text \<open>The paths and the substitution map \<^verbatim>\<open>main\<close> computes first, lines 176 to 201.\<close>

definition template_path :: "env \<Rightarrow> string" where
  "template_path env = os_path_abspath env ''fetch-modules.ktpl''"

definition substituted_yaml_path :: "env \<Rightarrow> string" where
  "substituted_yaml_path env = os_path_join (cwd env) ''substituted_config.ktpl''"

definition json_file :: "env \<Rightarrow> string" where
  "json_file env = os_path_join (cwd env) ''temp_fetch_module_code.json''"

definition substitutions :: "args \<Rightarrow> (string \<rightharpoonup> string)" where
  "substitutions a = [''chain'' \<mapsto> args_chain a, ''namespace'' \<mapsto> args_namespace a]"

text \<open>
  Everything \<^verbatim>\<open>main\<close> does before the clean-up, lines 181 to 221, from the parsed
  arguments on.
\<close>

definition stages :: "env \<Rightarrow> args \<Rightarrow> world \<Rightarrow> (stop \<times> world) + world" where
  "stages env a w =
     (if \<not> os_path_isfile (template_path env) w then
        sys_exit 1 (print_stderr (Error_template_missing (template_path env)) w)
      else
        (case read_file env (template_path env) w of
           Inl e \<Rightarrow> sys_exit 1 (print_stderr Error_read_template w)
         | Inr yaml_template_content \<Rightarrow>
             (let substituted_yaml_content =
                    substitute_placeholders yaml_template_content (substitutions a)
              in case write_file env (substituted_yaml_path env)
                        (JStr substituted_yaml_content) w of
                   Inl (e, w1) \<Rightarrow> sys_exit 1 (print_stderr Error_write_substituted w1)
                 | Inr w1 \<Rightarrow>
                     (case generate_json env (substituted_yaml_path env) (json_file env) w1 of
                        Inl s \<Rightarrow> Inl s
                      | Inr w2 \<Rightarrow>
                          (case run_kda_local env (json_file env) (args_network_url a) w2 of
                             Inl s \<Rightarrow> Inl s
                           | Inr (local_output, w3) \<Rightarrow>
                               parse_and_create_files env local_output
                                 (args_network_url a) w3)))))"

definition main :: "env \<Rightarrow> args \<Rightarrow> world \<Rightarrow> (stop \<times> world) + world" where
  "main env a w =
     (case stages env a w of
        Inl s \<Rightarrow> Inl s
      | Inr w4 \<Rightarrow> Inr (cleanup env (json_file env) (substituted_yaml_path env) w4))"

text \<open>
  \<^verbatim>\<open>asyncio.run(main())\<close> under the interpreter: the exit status of the process and
  the world it leaves. A normal return is status 0; an uncaught exception prints a
  traceback and is status 1.
\<close>

definition run :: "env \<Rightarrow> args \<Rightarrow> world \<Rightarrow> int \<times> world" where
  "run env a w =
     (case main env a w of
        Inr w' \<Rightarrow> (0, w')
      | Inl (SystemExit n, w') \<Rightarrow> (n, w')
      | Inl (Uncaught e, w') \<Rightarrow> (1, print_stderr (Traceback e) w'))"

section \<open>Predicates used to state the claims\<close>

text \<open>
  A field of a module is missing or empty: the dictionary has no such key, or the value
  under it is one that \<^verbatim>\<open>not\<close> takes for false (the empty string, \<^verbatim>\<open>null\<close>, zero, an
  empty list or dictionary, \<^verbatim>\<open>false\<close>).
\<close>

definition missing_or_empty :: "(string \<times> json) list \<Rightarrow> string \<Rightarrow> bool" where
  "missing_or_empty kvs k = (case map_of kvs k of None \<Rightarrow> True | Some v \<Rightarrow> \<not> py_truthy v)"

text \<open>
  The derivation of namespace and leaf name in the words of the specification: the name
  split at its last dot, or, without a dot, the full name and the default \<^verbatim>\<open>KDA\<close>.
\<close>

definition splits_as :: "string \<Rightarrow> string \<Rightarrow> string \<Rightarrow> bool" where
  "splits_as name ns leaf =
     ((name = ns @ ''.'' @ leaf \<and> CHR ''.'' \<notin> set leaf) \<or>
      (CHR ''.'' \<notin> set name \<and> ns = name \<and> leaf = ''KDA''))"

section \<open>Sample inputs\<close>

text \<open>
  A world with nothing in it, and an environment that refuses nothing: the shell
  command succeeds and leaves the generated request file behind, and \<^verbatim>\<open>json.loads\<close>
  returns the given document.
\<close>

definition empty_world :: world where
  "empty_world = \<lparr>files = Map.empty, dirs = {}, stderr = []\<rparr>"

definition kda_stub :: "string \<Rightarrow> world \<Rightarrow> (int \<times> string \<times> string) \<times> world" where
  "kda_stub command w =
     ((0, ''response'', []),
      w\<lparr>files := (files w)(''/work/temp_fetch_module_code.json'' \<mapsto> ''request'')\<rparr>)"

definition permissive_env :: "json option \<Rightarrow> env" where
  "permissive_env doc =
     \<lparr>cwd = ''/work'',
      mkdir_denied = (\<lambda>p. False),
      open_denied = (\<lambda>p. False),
      write_denied = (\<lambda>p. False),
      read_denied = (\<lambda>p. False),
      remove_denied = (\<lambda>p. False),
      shell = kda_stub,
      json_loads = (\<lambda>s. doc)\<rparr>"


definition sample_module :: "string \<Rightarrow> string \<Rightarrow> json" where
  "sample_module name code = JObj [(''name'', JStr name), (''code'', JStr code)]"

definition sample_entry :: "json list \<Rightarrow> json" where
  "sample_entry modules =
     JObj [(''body'', JObj [(''result'', JObj [(''data'', JArr modules)])])]"

text \<open>
  Inputs of a whole run: the default network URL with a chain and a namespace, a working
  directory that holds a one-line template, a response with one well-formed module, a
  shell whose command fails, one whose command succeeds without writing anything, the
  world the clean-up starts from, and an environment in which the generated request
  file cannot be removed.
\<close>

definition sample_args :: args where
  "sample_args =
     \<lparr>args_network_url = ''https://testnet.mindsend.xyz'', args_chain = ''0'',
      args_namespace = ''n_test''\<rparr>"

definition template_world :: world where
  "template_world =
     \<lparr>files = [''/work/fetch-modules.ktpl'' \<mapsto> ''chain: {{{chain}}}''],
      dirs = {''/work''}, stderr = []\<rparr>"

definition sample_response :: json where
  "sample_response =
     JObj [(''https://testnet.mindsend.xyz'',
            JArr [sample_entry [sample_module ''ns.foo.Thing'' ''(module Thing)'']])]"

definition failing_shell :: "string \<Rightarrow> world \<Rightarrow> (int \<times> string \<times> string) \<times> world" where
  "failing_shell command w = ((1, [], ''kda: failed''), w)"

definition idle_shell :: "string \<Rightarrow> world \<Rightarrow> (int \<times> string \<times> string) \<times> world" where
  "idle_shell command w = ((0, [], []), w)"

definition temp_world :: world where
  "temp_world =
     \<lparr>files = [''/work/temp_fetch_module_code.json'' \<mapsto> ''request'',
               ''/work/substituted_config.ktpl'' \<mapsto> ''chain: 0''],
      dirs = {''/work''}, stderr = []\<rparr>"

definition json_locked_env :: "json option \<Rightarrow> env" where
  "json_locked_env doc =
     (permissive_env doc)\<lparr>remove_denied := (\<lambda>p. p = ''/work/temp_fetch_module_code.json'')\<rparr>"

section \<open>Properties of the template renderer\<close>

subsection \<open>What the pattern matches\<close>

lemma not_word_braces: "\<not> is_word CHR ''{''" "\<not> is_word CHR ''}''"
  by (simp_all add: is_word_def)

lemma takeWhile_stop: "\<not> P x \<Longrightarrow> takeWhile P (xs @ x # ys) = takeWhile P xs"
  by (induction xs) auto

lemma dropWhile_stop: "\<not> P x \<Longrightarrow> dropWhile P (xs @ x # ys) = dropWhile P xs @ x # ys"
  by (induction xs) auto

lemma takeWhile_all: "list_all P k \<Longrightarrow> \<not> P x \<Longrightarrow> takeWhile P (k @ x # ys) = k"
  by (induction k) auto

lemma dropWhile_all: "list_all P k \<Longrightarrow> \<not> P x \<Longrightarrow> dropWhile P (k @ x # ys) = x # ys"
  by (induction k) auto

lemma pattern_match_complete:
  "word_key k \<Longrightarrow> pattern_match (''{{{'' @ k @ ''}}}'' @ rest) = Some (k, rest)"
  by (simp add: word_key_def pattern_match_def takeWhile_all dropWhile_all not_word_braces)

lemma take3_eq: "take 3 d = [a, b, c] \<Longrightarrow> d = a # b # c # drop 3 d"
  by (cases d; cases "tl d"; cases "tl (tl d)") auto

lemma pattern_match_sound:
  assumes "pattern_match s = Some (k, rest)"
  shows "s = ''{{{'' @ k @ ''}}}'' @ rest \<and> word_key k"
proof -
  from assms obtain r where s: "s = ''{{{'' @ r"
    and k: "k = takeWhile is_word r" "k \<noteq> []"
    and t: "take 3 (dropWhile is_word r) = ''}}}''"
    and rest: "rest = drop 3 (dropWhile is_word r)"
    by (auto simp: pattern_match_def Let_def split: list.splits if_splits)
  have "r = k @ dropWhile is_word r" using k by simp
  moreover have "dropWhile is_word r = ''}}}'' @ rest"
    using take3_eq [OF t] rest by simp
  moreover have "list_all is_word k"
    using k by (simp add: list_all_iff) (meson set_takeWhileD)
  ultimately show ?thesis using s k by (simp add: word_key_def)
qed

lemma take3_boundary:
  "(take 3 (d @ CHR ''{'' # CHR ''{'' # CHR ''{'' # Y) = ''}}}'') = (take 3 d = ''}}}'')"
  by (cases d; cases "tl d"; cases "tl (tl d)") auto

lemma takeWhile_word_brace:
  "takeWhile is_word (r @ CHR ''{'' # Z) = takeWhile is_word r"
  by (simp add: takeWhile_stop not_word_braces)

lemma dropWhile_word_brace:
  "dropWhile is_word (r @ CHR ''{'' # Z) = dropWhile is_word r @ CHR ''{'' # Z"
  by (simp add: dropWhile_stop not_word_braces)

lemma pattern_match_boundary:
  assumes "pre \<noteq> []"
  shows "pattern_match (pre @ ''{{{'' @ Y) =
         map_option (\<lambda>(k, r). (k, r @ ''{{{'' @ Y)) (pattern_match pre)"
proof -
  consider a where "pre = [a]" | a b where "pre = [a, b]" | a b c r where "pre = a # b # c # r"
    using assms by (cases pre; cases "tl pre"; cases "tl (tl pre)") auto
  then show ?thesis
  proof cases
    case 1
    then show ?thesis by (simp add: pattern_match_def not_word_braces)
  next
    case 2
    then show ?thesis by (simp add: pattern_match_def not_word_braces)
  next
    case 3
    show ?thesis
    proof (cases "take 3 (dropWhile is_word r) = ''}}}''")
      case True
      define d where "d = drop 3 (dropWhile is_word r)"
      have "dropWhile is_word r = CHR ''}'' # CHR ''}'' # CHR ''}'' # d"
        unfolding d_def by (rule take3_eq [OF True])
      then show ?thesis
        by (simp add: 3 pattern_match_def takeWhile_word_brace dropWhile_word_brace Let_def)
    next
      case False
      then show ?thesis
        by (simp add: 3 pattern_match_def takeWhile_word_brace dropWhile_word_brace
            take3_boundary Let_def del: take_append)
    qed
  qed
qed

lemma pattern_sub_boundary:
  "pattern_sub f (pre @ ''{{{'' @ Y) = pattern_sub f pre @ pattern_sub f (''{{{'' @ Y)"
proof (induction f pre rule: pattern_sub.induct)
  case (1 repl)
  then show ?case by simp
next
  case (2 repl c cs)
  have m: "pattern_match ((c # cs) @ ''{{{'' @ Y) =
           map_option (\<lambda>(k, r). (k, r @ ''{{{'' @ Y)) (pattern_match (c # cs))"
    by (rule pattern_match_boundary) simp
  show ?case
  proof (cases "pattern_match (c # cs)")
    case None
    with m 2 show ?thesis by simp
  next
    case (Some kr)
    obtain k r where kr: "kr = (k, r)" by (cases kr)
    with m Some 2 show ?thesis by simp
  qed
qed

lemma pattern_sub_occurrence:
  assumes "word_key k"
  shows "pattern_sub f (pre @ ''{{{'' @ k @ ''}}}'' @ post) =
         pattern_sub f pre @ f (''{{{'' @ k @ ''}}}'', k) @ pattern_sub f post"
proof -
  have "pattern_sub f (''{{{'' @ k @ ''}}}'' @ post) = f (''{{{'' @ k @ ''}}}'', k) @ pattern_sub f post"
    using pattern_match_complete [OF assms, of post] by simp
  then show ?thesis
    using pattern_sub_boundary [of f pre "k @ ''}}}'' @ post"] by simp
qed



lemma placeholder_free_tl: "placeholder_free (c # cs) \<Longrightarrow> placeholder_free cs"
  unfolding placeholder_free_def
proof (intro allI impI)
  fix pre k post
  assume h: "\<forall>pre k post. word_key k \<longrightarrow> c # cs \<noteq> pre @ ''{{{'' @ k @ ''}}}'' @ post"
    and k: "word_key k"
  from h k have "c # cs \<noteq> (c # pre) @ ''{{{'' @ k @ ''}}}'' @ post" by blast
  then show "cs \<noteq> pre @ ''{{{'' @ k @ ''}}}'' @ post" by simp
qed

lemma placeholder_free_no_match: "placeholder_free s \<Longrightarrow> pattern_match s = None"
proof (rule ccontr)
  assume pf: "placeholder_free s" and "pattern_match s \<noteq> None"
  then obtain k rest where "pattern_match s = Some (k, rest)" by auto
  from pattern_match_sound [OF this] have "s = [] @ ''{{{'' @ k @ ''}}}'' @ rest" "word_key k"
    by simp_all
  with pf show False unfolding placeholder_free_def by blast
qed

lemma pattern_sub_placeholder_free: "placeholder_free t \<Longrightarrow> pattern_sub f t = t"
proof (induction t)
  case Nil
  then show ?case by simp
next
  case (Cons c cs)
  from Cons.prems have "pattern_match (c # cs) = None" by (rule placeholder_free_no_match)
  moreover from Cons.prems have "placeholder_free cs" by (rule placeholder_free_tl)
  ultimately show ?case using Cons.IH by simp
qed

lemma brace_free_placeholder_free: "CHR ''{'' \<notin> set t \<Longrightarrow> placeholder_free t"
  unfolding placeholder_free_def by auto





lemma replacer_apply:
  "replacer M (g0, k) = (case M k of Some v \<Rightarrow> v | None \<Rightarrow> g0)"
  by (simp add: replacer_def split: option.splits)

subsection \<open>Claims about the renderer\<close>

text \<open>
  Claim C1, as the code has it. Every occurrence of a placeholder whose key is a
  non-empty run of word characters is rendered on its own: the text before it and the
  text after it are rendered independently, and the occurrence becomes the mapped value
  when the key is mapped and stays as it is (no error) when the key is not mapped. A
  text in which no such placeholder occurs is returned unchanged.
\<close>

theorem substitute_placeholders_occurrences:
  "(word_key k \<longrightarrow>
      substitute_placeholders (pre @ ''{{{'' @ k @ ''}}}'' @ post) M =
        substitute_placeholders pre M @
        (case M k of Some v \<Rightarrow> v | None \<Rightarrow> ''{{{'' @ k @ ''}}}'') @
        substitute_placeholders post M) \<and>
   (placeholder_free t \<longrightarrow> substitute_placeholders t M = t)"
proof (intro conjI impI)
  assume "word_key k"
  from pattern_sub_occurrence [OF this, of "replacer M" pre post]
  show "substitute_placeholders (pre @ ''{{{'' @ k @ ''}}}'' @ post) M =
        substitute_placeholders pre M @
        (case M k of Some v \<Rightarrow> v | None \<Rightarrow> ''{{{'' @ k @ ''}}}'') @
        substitute_placeholders post M"
    unfolding substitute_placeholders_def replacer_apply .
next
  assume "placeholder_free t"
  then show "substitute_placeholders t M = t"
    unfolding substitute_placeholders_def by (rule pattern_sub_placeholder_free)
qed

text \<open>
  Each hypothesis holds at a concrete input: \<open>chain\<close> is a word key and occurs twice,
  \<open>namespace\<close> is not mapped, and a text without braces has no placeholder.
\<close>

theorem substitute_placeholders_occurrences_witness:
  "word_key ''chain'' \<and>
   substitute_placeholders ''c: {{{chain}}}, n: {{{namespace}}}, c: {{{chain}}}''
     [''chain'' \<mapsto> ''1''] = ''c: 1, n: {{{namespace}}}, c: 1'' \<and>
   placeholder_free ''no braces'' \<and>
   substitute_placeholders ''no braces'' [''chain'' \<mapsto> ''1''] = ''no braces''"
proof -
  have k: "word_key ''chain''"
    by (simp add: word_key_def is_word_def)
  have pf: "placeholder_free ''no braces''"
    by (rule brace_free_placeholder_free) simp
  have pre: "substitute_placeholders ''c: '' [''chain'' \<mapsto> ''1''] = ''c: ''"
    by (simp add: substitute_placeholders_def pattern_match_def)
  have post: "substitute_placeholders '', n: {{{namespace}}}, c: {{{chain}}}'' [''chain'' \<mapsto> ''1'']
      = '', n: {{{namespace}}}, c: 1''"
    by (simp add: substitute_placeholders_def replacer_def pattern_match_def is_word_def)
  show ?thesis
    using k pf pre post
      substitute_placeholders_occurrences [of "''chain''" "''c: ''"
        "'', n: {{{namespace}}}, c: {{{chain}}}''" "[''chain'' \<mapsto> ''1'']" "''no braces''"]
    by simp
qed

text \<open>
  Claim C1 as stated (every placeholder whose key is mapped is replaced) fails for a
  mapped key that is not a run of word characters: the pattern never matches it.
\<close>

theorem mapped_non_word_key_counterexample:
  "[''my-key'' \<mapsto> ''v''] ''my-key'' = Some ''v'' \<and>
   substitute_placeholders ''x {{{my-key}}} y'' [''my-key'' \<mapsto> ''v''] = ''x {{{my-key}}} y''"
  by (simp add: substitute_placeholders_def replacer_def pattern_match_def is_word_def)



section \<open>Properties of the response extractor\<close>

subsection \<open>Splitting names, and loops over lists\<close>

lemma sublist_singleton: "sublist [c] t = (c \<in> set t)"
  by (auto simp: sublist_def in_set_conv_decomp)

lemma rsplit1_last:
  assumes "sep \<notin> set leaf"
  shows "rsplit1 sep (ns @ sep # leaf) = [ns, leaf]"
proof -
  have all: "list_all (\<lambda>c. c \<noteq> sep) (rev leaf)"
    using assms by (auto simp: list_all_iff)
  have "takeWhile (\<lambda>c. c \<noteq> sep) (rev leaf @ sep # rev ns) = rev leaf"
    using takeWhile_all [OF all, of sep "rev ns"] by simp
  moreover have "dropWhile (\<lambda>c. c \<noteq> sep) (rev leaf @ sep # rev ns) = sep # rev ns"
    using dropWhile_all [OF all, of sep "rev ns"] by simp
  ultimately show ?thesis by (simp add: rsplit1_def)
qed

lemma rsplit1_decompose:
  assumes "sep \<in> set s"
  shows "\<exists>ns leaf. s = ns @ sep # leaf \<and> sep \<notin> set leaf"
  using assms by (metis split_list_last)

lemma split_name_dot:
  "CHR ''.'' \<notin> set leaf \<Longrightarrow> split_name (JStr (ns @ ''.'' @ leaf)) = Inr (JStr ns, leaf)"
  using rsplit1_last [of "CHR ''.''" leaf ns]
  by (simp add: split_name_def sublist_singleton)

lemma split_name_no_dot:
  "CHR ''.'' \<notin> set name \<Longrightarrow> split_name (JStr name) = Inr (JStr name, ''KDA'')"
  by (simp add: split_name_def sublist_singleton)

lemma split_name_string: "\<exists>ns leaf. split_name (JStr name) = Inr (JStr ns, leaf)"
proof (cases "CHR ''.'' \<in> set name")
  case True
  then obtain ns leaf where "name = ns @ ''.'' @ leaf" "CHR ''.'' \<notin> set leaf"
    using rsplit1_decompose [of "CHR ''.''" name] by auto
  then show ?thesis using split_name_dot by blast
next
  case False
  then show ?thesis using split_name_no_dot by blast
qed

lemma process_modules_append:
  "process_modules env (xs @ ys) w =
     (case process_modules env xs w of Inl a \<Rightarrow> Inl a | Inr w' \<Rightarrow> process_modules env ys w')"
  by (induction xs arbitrary: w) (auto split: sum.splits)

lemma process_entries_append:
  "process_entries env (xs @ ys) w =
     (case process_entries env xs w of Inl a \<Rightarrow> Inl a | Inr w' \<Rightarrow> process_entries env ys w')"
  by (induction xs arbitrary: w) (auto split: sum.splits)

lemma print_stderr_simps:
  "files (print_stderr m w) = files w"
  "dirs (print_stderr m w) = dirs w"
  "stderr (print_stderr m w) = stderr w @ [m]"
  by (simp_all add: print_stderr_def)

subsection \<open>Claims about fatal and skipped records\<close>

text \<open>
  Claim C3. Let the response be valid JSON. If it is an object without the network URL
  as a key, the extractor prints the error and exits with status 1; if the value under
  the key is not a list, it prints the other error and exits with status 1. More
  generally, whenever the document is not an object holding a list under the URL (also
  when it is no object at all, where the stop is an uncaught \<^verbatim>\<open>TypeError\<close>), the run
  stops with status 1 and neither a file nor a directory has been touched.
\<close>

theorem missing_network_url_is_fatal:
  assumes "json_loads env json_output = Some data"
  shows
    "(data = JObj kvs \<and> map_of kvs network_url = None \<longrightarrow>
        parse_and_create_files env json_output network_url w =
          Inl (SystemExit 1, print_stderr (Error_url_not_found network_url) w)) \<and>
     (data = JObj kvs \<and> map_of kvs network_url = Some v \<and> (\<forall>entries. v \<noteq> JArr entries) \<longrightarrow>
        parse_and_create_files env json_output network_url w =
          Inl (SystemExit 1, print_stderr Error_expected_list w)) \<and>
     ((\<forall>kvs entries. data = JObj kvs \<longrightarrow> map_of kvs network_url \<noteq> Some (JArr entries)) \<longrightarrow>
        (\<exists>s w'. parse_and_create_files env json_output network_url w = Inl (s, w') \<and>
           exit_status s = 1 \<and> files w' = files w \<and> dirs w' = dirs w))"
proof (intro conjI impI)
  assume "data = JObj kvs \<and> map_of kvs network_url = None"
  then show "parse_and_create_files env json_output network_url w =
          Inl (SystemExit 1, print_stderr (Error_url_not_found network_url) w)"
    using assms by (simp add: parse_and_create_files_def sys_exit_def)
next
  assume "data = JObj kvs \<and> map_of kvs network_url = Some v \<and> (\<forall>entries. v \<noteq> JArr entries)"
  then show "parse_and_create_files env json_output network_url w =
          Inl (SystemExit 1, print_stderr Error_expected_list w)"
    using assms by (cases v) (simp_all add: parse_and_create_files_def sys_exit_def)
next
  assume h: "\<forall>kvs entries. data = JObj kvs \<longrightarrow> map_of kvs network_url \<noteq> Some (JArr entries)"
  show "\<exists>s w'. parse_and_create_files env json_output network_url w = Inl (s, w') \<and>
           exit_status s = 1 \<and> files w' = files w \<and> dirs w' = dirs w"
  proof (cases data)
    case (JObj kvs')
    show ?thesis
    proof (cases "map_of kvs' network_url")
      case None
      with JObj assms show ?thesis
        by (simp add: parse_and_create_files_def sys_exit_def print_stderr_simps)
    next
      case (Some v')
      with h JObj have "\<forall>entries. v' \<noteq> JArr entries" by auto
      with Some JObj assms show ?thesis
        by (cases v') (simp_all add: parse_and_create_files_def sys_exit_def print_stderr_simps)
    qed
  qed (use assms in \<open>auto simp: parse_and_create_files_def sys_exit_def print_stderr_simps\<close>)
qed

theorem missing_network_url_is_fatal_witness:
  "json_loads (permissive_env (Some (JObj [(''other'', JArr [])]))) ''response'' =
     Some (JObj [(''other'', JArr [])]) \<and>
   map_of [(''other'', JArr [])] ''https://testnet.mindsend.xyz'' = None \<and>
   parse_and_create_files (permissive_env (Some (JObj [(''other'', JArr [])]))) ''response''
     ''https://testnet.mindsend.xyz'' empty_world =
     Inl (SystemExit 1, print_stderr (Error_url_not_found ''https://testnet.mindsend.xyz'') empty_world) \<and>
   parse_and_create_files
     (permissive_env (Some (JObj [(''https://testnet.mindsend.xyz'', JStr ''text'')]))) ''response''
     ''https://testnet.mindsend.xyz'' empty_world =
     Inl (SystemExit 1, print_stderr Error_expected_list empty_world)"
  using
    missing_network_url_is_fatal [where env = "permissive_env (Some (JObj [(''other'', JArr [])]))"
      and json_output = "''response''" and data = "JObj [(''other'', JArr [])]"
      and kvs = "[(''other'', JArr [])]" and network_url = "''https://testnet.mindsend.xyz''"
      and w = empty_world]
    missing_network_url_is_fatal [where
      env = "permissive_env (Some (JObj [(''https://testnet.mindsend.xyz'', JStr ''text'')]))"
      and json_output = "''response''"
      and data = "JObj [(''https://testnet.mindsend.xyz'', JStr ''text'')]"
      and kvs = "[(''https://testnet.mindsend.xyz'', JStr ''text'')]"
      and network_url = "''https://testnet.mindsend.xyz''" and v = "JStr ''text''"
      and w = empty_world]
  by (simp add: permissive_env_def)

text \<open>
  Claim C4, as the code has it. A module that is a dictionary and whose \<^verbatim>\<open>name\<close> or \<^verbatim>\<open>code\<close> is missing or empty is
  skipped with the warning; no file and no directory is created for it; and in a list
  the modules before it have been processed and the modules after it are processed
  next, from the world the warning left.
\<close>

theorem incomplete_module_is_skipped:
  assumes "missing_or_empty kvs ''name'' \<or> missing_or_empty kvs ''code''"
  shows
    "process_module env (JObj kvs) w = Inr (print_stderr Warning_missing_name_or_code w) \<and>
     files (print_stderr Warning_missing_name_or_code w) = files w \<and>
     dirs (print_stderr Warning_missing_name_or_code w) = dirs w \<and>
     (process_modules env before w0 = Inr w \<longrightarrow>
        process_modules env (before @ JObj kvs # rest) w0 =
          process_modules env rest (print_stderr Warning_missing_name_or_code w))"
proof -
  have 1: "process_module env (JObj kvs) w = Inr (print_stderr Warning_missing_name_or_code w)"
    using assms
    by (auto simp: process_module_def missing_or_empty_def split: option.splits)
  then show ?thesis
    by (simp add: process_modules_append print_stderr_simps)
qed

theorem incomplete_module_is_skipped_witness:
  "missing_or_empty [(''name'', JStr ''ns.a'')] ''code'' \<and>
   process_modules (permissive_env None)
     ([sample_module ''ns.b'' ''(module b)''] @ JObj [(''name'', JStr ''ns.a'')] #
      [sample_module ''ns.c'' ''(module c)'']) empty_world =
   Inr \<lparr>files = [''ns/b.pact'' \<mapsto> ''(module b)'', ''ns/c.pact'' \<mapsto> ''(module c)''],
        dirs = {''ns''}, stderr = [Warning_missing_name_or_code]\<rparr>"
proof -
  have m: "missing_or_empty [(''name'', JStr ''ns.a'')] ''code''"
    by (simp add: missing_or_empty_def)
  have before: "process_modules (permissive_env None) [sample_module ''ns.b'' ''(module b)''] empty_world
      = Inr \<lparr>files = [''ns/b.pact'' \<mapsto> ''(module b)''], dirs = {''ns''}, stderr = []\<rparr>"
    by (simp add: process_module_def sample_module_def split_name_def rsplit1_def write_module_def
      py_makedirs_def os_makedirs_def py_path_join_def os_path_join_def write_file_def open_w_def
      f_write_def permissive_env_def empty_world_def sublist_singleton)
  have rest: "process_modules (permissive_env None) [sample_module ''ns.c'' ''(module c)'']
      (print_stderr Warning_missing_name_or_code
         \<lparr>files = [''ns/b.pact'' \<mapsto> ''(module b)''], dirs = {''ns''}, stderr = []\<rparr>)
      = Inr \<lparr>files = [''ns/b.pact'' \<mapsto> ''(module b)'', ''ns/c.pact'' \<mapsto> ''(module c)''],
        dirs = {''ns''}, stderr = [Warning_missing_name_or_code]\<rparr>"
    by (simp add: process_module_def sample_module_def split_name_def rsplit1_def write_module_def
      py_makedirs_def os_makedirs_def py_path_join_def os_path_join_def write_file_def open_w_def
      f_write_def permissive_env_def print_stderr_def sublist_singleton)
  show ?thesis
    using m before rest
      incomplete_module_is_skipped [where kvs = "[(''name'', JStr ''ns.a'')]"
        and env = "permissive_env None"
        and w = "\<lparr>files = [''ns/b.pact'' \<mapsto> ''(module b)''], dirs = {''ns''}, stderr = []\<rparr>"
        and before = "[sample_module ''ns.b'' ''(module b)'']" and ?w0.0 = empty_world
        and rest = "[sample_module ''ns.c'' ''(module c)'']"]
    by simp
qed

text \<open>
  Claim C4 as stated (every element of the list) fails for an element that is not a
  dictionary, here a module given by its name only: it has no \<^verbatim>\<open>name\<close> field, yet it is
  not skipped. \<^verbatim>\<open>module.get\<close> raises \<^verbatim>\<open>AttributeError\<close>, no warning is printed, and the
  sibling after it is never processed.
\<close>

theorem non_object_module_counterexample:
  "process_module (permissive_env None) (JStr ''ns.foo.Thing'') empty_world =
     Inl (Uncaught AttributeError, empty_world) \<and>
   process_modules (permissive_env None)
     [JStr ''ns.foo.Thing'', sample_module ''ns.b'' ''(module b)''] empty_world =
     Inl (Uncaught AttributeError, empty_world)"
  by (simp add: process_module_def)

text \<open>
  Claim C5, as the code has it. An entry that is a dictionary and in which \<^verbatim>\<open>body\<close> is missing, or whose \<^verbatim>\<open>body\<close>
  dictionary lacks \<^verbatim>\<open>result\<close>, or whose \<^verbatim>\<open>result\<close> dictionary lacks \<^verbatim>\<open>data\<close>, is skipped
  with the warning that names the key; an entry whose \<^verbatim>\<open>data\<close> is not a list is skipped
  with the other warning. Either way nothing is written for the entry and the loop goes
  on with the next entry.
\<close>

theorem incomplete_entry_is_skipped:
  "(entry = JObj e \<and> map_of e ''body'' = None \<longrightarrow>
      process_entry env entry w = Inr (print_stderr (Warning_missing_key ''body'') w)) \<and>
   (entry = JObj e \<and> map_of e ''body'' = Some (JObj b) \<and> map_of b ''result'' = None \<longrightarrow>
      process_entry env entry w = Inr (print_stderr (Warning_missing_key ''result'') w)) \<and>
   (entry = JObj e \<and> map_of e ''body'' = Some (JObj b) \<and> map_of b ''result'' = Some (JObj r) \<and>
    map_of r ''data'' = None \<longrightarrow>
      process_entry env entry w = Inr (print_stderr (Warning_missing_key ''data'') w)) \<and>
   (entry = JObj e \<and> map_of e ''body'' = Some (JObj b) \<and> map_of b ''result'' = Some (JObj r) \<and>
    map_of r ''data'' = Some v \<and> (\<forall>modules. v \<noteq> JArr modules) \<longrightarrow>
      process_entry env entry w = Inr (print_stderr Warning_data_not_list w)) \<and>
   (process_entries env before w0 = Inr w \<and> process_entry env entry w = Inr (print_stderr m w) \<longrightarrow>
      process_entries env (before @ entry # rest) w0 = process_entries env rest (print_stderr m w) \<and>
      files (print_stderr m w) = files w \<and> dirs (print_stderr m w) = dirs w)"
proof (intro conjI impI)
  assume "entry = JObj e \<and> map_of e ''body'' = Some (JObj b) \<and> map_of b ''result'' = Some (JObj r) \<and>
    map_of r ''data'' = Some v \<and> (\<forall>modules. v \<noteq> JArr modules)"
  then show "process_entry env entry w = Inr (print_stderr Warning_data_not_list w)"
    by (cases v) (simp_all add: process_entry_def result_data_of_def)
qed (simp_all add: process_entry_def result_data_of_def process_entries_append print_stderr_simps)

theorem incomplete_entry_is_skipped_witness:
  "process_entries (permissive_env None)
     ([sample_entry [sample_module ''ns.b'' ''(module b)'']] @
      JObj [(''body'', JObj [(''status'', JInt 500)])] #
      [JObj [(''body'', JObj [(''result'', JObj [(''data'', JStr ''none'')])])]]) empty_world =
   Inr \<lparr>files = [''ns/b.pact'' \<mapsto> ''(module b)''], dirs = {''ns''},
        stderr = [Warning_missing_key ''result'', Warning_data_not_list]\<rparr>"
proof -
  let ?w1 = "\<lparr>files = [''ns/b.pact'' \<mapsto> ''(module b)''], dirs = {''ns''}, stderr = []\<rparr>"
  let ?e2 = "JObj [(''body'', JObj [(''status'', JInt 500)])]"
  let ?e3 = "JObj [(''body'', JObj [(''result'', JObj [(''data'', JStr ''none'')])])]"
  have before: "process_entries (permissive_env None)
      [sample_entry [sample_module ''ns.b'' ''(module b)'']] empty_world = Inr ?w1"
    by (simp add: process_entry_def result_data_of_def sample_entry_def
      process_module_def sample_module_def split_name_def rsplit1_def write_module_def
      py_makedirs_def os_makedirs_def py_path_join_def os_path_join_def write_file_def open_w_def
      f_write_def permissive_env_def empty_world_def sublist_singleton)
  have 2: "process_entry (permissive_env None) ?e2 ?w1 =
      Inr (print_stderr (Warning_missing_key ''result'') ?w1)"
    using incomplete_entry_is_skipped [where entry = ?e2 and e = "[(''body'', JObj [(''status'', JInt 500)])]"
        and b = "[(''status'', JInt 500)]" and env = "permissive_env None" and w = ?w1]
    by simp
  have 3: "process_entries (permissive_env None) [?e3] (print_stderr (Warning_missing_key ''result'') ?w1) =
      Inr (print_stderr Warning_data_not_list (print_stderr (Warning_missing_key ''result'') ?w1))"
    using incomplete_entry_is_skipped [where entry = ?e3
        and e = "[(''body'', JObj [(''result'', JObj [(''data'', JStr ''none'')])])]"
        and b = "[(''result'', JObj [(''data'', JStr ''none'')])]"
        and r = "[(''data'', JStr ''none'')]" and v = "JStr ''none''"
        and env = "permissive_env None" and w = "print_stderr (Warning_missing_key ''result'') ?w1"]
    by simp
  show ?thesis
    using before 2 3
      incomplete_entry_is_skipped [where entry = ?e2 and env = "permissive_env None" and w = ?w1
        and before = "[sample_entry [sample_module ''ns.b'' ''(module b)'']]" and ?w0.0 = empty_world
        and m = "Warning_missing_key ''result''" and rest = "[?e3]"]
    by (simp add: print_stderr_def)
qed

text \<open>
  Claim C5 as stated (any field of the path missing) fails when a value on the way is
  not a dictionary, here a \<^verbatim>\<open>body\<close> that is an error text: \<^verbatim>\<open>result\<close> cannot be reached,
  yet the entry is not skipped. The lookup raises \<^verbatim>\<open>TypeError\<close>, which the handler for
  \<^verbatim>\<open>KeyError\<close> does not catch, and the entry after it is never processed.
\<close>

theorem non_object_body_counterexample:
  "process_entry (permissive_env None) (JObj [(''body'', JStr ''Validation failed'')]) empty_world =
     Inl (Uncaught TypeError, empty_world) \<and>
   process_entries (permissive_env None)
     [JObj [(''body'', JStr ''Validation failed'')],
      sample_entry [sample_module ''ns.b'' ''(module b)'']] empty_world =
     Inl (Uncaught TypeError, empty_world)"
  by (simp add: process_entry_def result_data_of_def)

section \<open>Properties of the file writer\<close>

subsection \<open>What the operating system calls leave behind\<close>

lemma splits_as_split_name:
  "splits_as name ns leaf \<Longrightarrow> split_name (JStr name) = Inr (JStr ns, leaf)"
  unfolding splits_as_def using split_name_dot split_name_no_dot by blast

lemma os_makedirs_success:
  assumes "os_makedirs env p exist_ok w = Inr w1"
  shows "p \<noteq> [] \<and> p \<in> dirs w1 \<and> files w1 = files w \<and> stderr w1 = stderr w \<and>
         dirs w1 = insert p (dirs w)"
  using assms by (auto simp: os_makedirs_def split: if_splits)


lemma write_file_success:
  assumes "write_file env p (JStr s) w = Inr w2"
  shows "files w2 = (files w)(p \<mapsto> s) \<and> dirs w2 = dirs w \<and> stderr w2 = stderr w"
  using assms
  by (auto simp: write_file_def open_w_def f_write_def split: if_splits sum.splits)

lemma os_path_join_plain:
  "a \<noteq> [] \<Longrightarrow> take 1 (rev a) \<noteq> ''/'' \<Longrightarrow> take 1 b \<noteq> ''/'' \<Longrightarrow>
   os_path_join a b = a @ ''/'' @ b"
  by (simp add: os_path_join_def)



lemma process_module_success:
  assumes "map_of kvs ''name'' = Some (JStr name)" "map_of kvs ''code'' = Some (JStr code)"
    and "name \<noteq> []" "code \<noteq> []"
    and "splits_as name ns leaf"
    and "os_makedirs env ns True w = Inr w1"
    and "write_file env (os_path_join ns (leaf @ ''.pact'')) (JStr code) w1 = Inr w2"
  shows "process_module env (JObj kvs) w = Inr w2"
  using assms splits_as_split_name [OF assms(5)]
  by (simp add: process_module_def write_module_def py_makedirs_def py_path_join_def)

lemma py_makedirs_string:
  "py_makedirs env namespace exist_ok w = Inr w1 \<Longrightarrow> \<exists>p. namespace = JStr p"
  by (cases namespace) (simp_all add: py_makedirs_def)

subsection \<open>Claims about written files\<close>

text \<open>
  Claim C2, as the code has it. Take a module whose \<^verbatim>\<open>name\<close> and \<^verbatim>\<open>code\<close> are non-empty
  strings, and let namespace and leaf be the name split at its last dot (without a dot:
  the full name and \<^verbatim>\<open>KDA\<close>). The code computes exactly this split. When creating the
  namespace directory succeeds and writing the file succeeds, the module is processed
  without a message, the files afterwards are the files before with the one path
  \<^verbatim>\<open>os.path.join(namespace, leaf + ".pact")\<close> set to the code string, and the namespace
  directory exists. That path is namespace, slash, leaf, \<^verbatim>\<open>.pact\<close> whenever the
  namespace does not end with a slash and the leaf does not begin with one.
\<close>

theorem well_formed_module_is_written:
  assumes "map_of kvs ''name'' = Some (JStr name)" "map_of kvs ''code'' = Some (JStr code)"
    and "name \<noteq> []" "code \<noteq> []"
    and "splits_as name ns leaf"
    and "os_makedirs env ns True w = Inr w1"
    and "write_file env (os_path_join ns (leaf @ ''.pact'')) (JStr code) w1 = Inr w2"
  shows "split_name (JStr name) = Inr (JStr ns, leaf) \<and>
         process_module env (JObj kvs) w = Inr w2 \<and>
         files w2 = (files w)(os_path_join ns (leaf @ ''.pact'') \<mapsto> code) \<and>
         ns \<in> dirs w2 \<and> stderr w2 = stderr w \<and>
         (take 1 (rev ns) \<noteq> ''/'' \<and> take 1 leaf \<noteq> ''/'' \<longrightarrow>
            os_path_join ns (leaf @ ''.pact'') = ns @ ''/'' @ leaf @ ''.pact'')"
proof -
  note mk = os_makedirs_success [OF assms(6)]
  note wr = write_file_success [OF assms(7)]
  have "process_module env (JObj kvs) w = Inr w2"
    using assms by (rule process_module_success)
  moreover have "take 1 (rev ns) \<noteq> ''/'' \<and> take 1 leaf \<noteq> ''/'' \<longrightarrow>
            os_path_join ns (leaf @ ''.pact'') = ns @ ''/'' @ leaf @ ''.pact''"
  proof (intro impI)
    assume h: "take 1 (rev ns) \<noteq> ''/'' \<and> take 1 leaf \<noteq> ''/''"
    then have "take 1 (leaf @ ''.pact'') \<noteq> ''/''"
      by (cases leaf) auto
    moreover have "ns \<noteq> []" using mk by simp
    ultimately show "os_path_join ns (leaf @ ''.pact'') = ns @ ''/'' @ leaf @ ''.pact''"
      using h os_path_join_plain by blast
  qed
  ultimately show ?thesis
    using mk wr splits_as_split_name [OF assms(5)] by simp
qed

text \<open>
  The two examples of the specification: \<^verbatim>\<open>ns.foo.Thing\<close> is written to
  \<^verbatim>\<open>ns.foo/Thing.pact\<close>, and \<^verbatim>\<open>standalone\<close> to \<^verbatim>\<open>standalone/KDA.pact\<close>.
\<close>

theorem well_formed_module_is_written_witness:
  "splits_as ''ns.foo.Thing'' ''ns.foo'' ''Thing'' \<and>
   process_module (permissive_env None) (sample_module ''ns.foo.Thing'' ''(module Thing)'') empty_world =
     Inr \<lparr>files = [''ns.foo/Thing.pact'' \<mapsto> ''(module Thing)''], dirs = {''ns.foo''}, stderr = []\<rparr> \<and>
   splits_as ''standalone'' ''standalone'' ''KDA'' \<and>
   process_module (permissive_env None) (sample_module ''standalone'' ''(module S)'') empty_world =
     Inr \<lparr>files = [''standalone/KDA.pact'' \<mapsto> ''(module S)''], dirs = {''standalone''}, stderr = []\<rparr>"
proof -
  have s1: "splits_as ''ns.foo.Thing'' ''ns.foo'' ''Thing''"
    by (simp add: splits_as_def)
  have s2: "splits_as ''standalone'' ''standalone'' ''KDA''"
    by (simp add: splits_as_def)
  have d1: "os_makedirs (permissive_env None) ''ns.foo'' True empty_world =
      Inr \<lparr>files = Map.empty, dirs = {''ns.foo''}, stderr = []\<rparr>"
    by (simp add: os_makedirs_def permissive_env_def empty_world_def)
  have d2: "os_makedirs (permissive_env None) ''standalone'' True empty_world =
      Inr \<lparr>files = Map.empty, dirs = {''standalone''}, stderr = []\<rparr>"
    by (simp add: os_makedirs_def permissive_env_def empty_world_def)
  have w1: "write_file (permissive_env None) (os_path_join ''ns.foo'' (''Thing'' @ ''.pact''))
      (JStr ''(module Thing)'') \<lparr>files = Map.empty, dirs = {''ns.foo''}, stderr = []\<rparr> =
      Inr \<lparr>files = [''ns.foo/Thing.pact'' \<mapsto> ''(module Thing)''], dirs = {''ns.foo''}, stderr = []\<rparr>"
    by (simp add: write_file_def open_w_def f_write_def os_path_join_def permissive_env_def)
  have w2: "write_file (permissive_env None) (os_path_join ''standalone'' (''KDA'' @ ''.pact''))
      (JStr ''(module S)'') \<lparr>files = Map.empty, dirs = {''standalone''}, stderr = []\<rparr> =
      Inr \<lparr>files = [''standalone/KDA.pact'' \<mapsto> ''(module S)''], dirs = {''standalone''}, stderr = []\<rparr>"
    by (simp add: write_file_def open_w_def f_write_def os_path_join_def permissive_env_def)
  have k1: "map_of [(''name'', JStr ''ns.foo.Thing''), (''code'', JStr ''(module Thing)'')] ''name'' =
      Some (JStr ''ns.foo.Thing'')" by simp
  have c1: "map_of [(''name'', JStr ''ns.foo.Thing''), (''code'', JStr ''(module Thing)'')] ''code'' =
      Some (JStr ''(module Thing)'')" by simp
  have k2: "map_of [(''name'', JStr ''standalone''), (''code'', JStr ''(module S)'')] ''name'' =
      Some (JStr ''standalone'')" by simp
  have c2: "map_of [(''name'', JStr ''standalone''), (''code'', JStr ''(module S)'')] ''code'' =
      Some (JStr ''(module S)'')" by simp
  show ?thesis
    using s1 s2
      well_formed_module_is_written [OF k1 c1 _ _ s1 d1 w1]
      well_formed_module_is_written [OF k2 c2 _ _ s2 d2 w2]
    by (simp add: sample_module_def)
qed

text \<open>
  Claim C2 as stated (every module with a non-empty name and code yields its file)
  fails for the name \<^verbatim>\<open>.b\<close>: the namespace is the empty string, \<^verbatim>\<open>os.makedirs("")\<close>
  raises, the handler reports it and the module is skipped; no file is written, although
  the environment refuses nothing.
\<close>

theorem empty_namespace_counterexample:
  "py_truthy (JStr ''.b'') \<and> py_truthy (JStr ''(module b)'') \<and>
   split_name (JStr ''.b'') = Inr (JStr [], ''b'') \<and>
   process_module (permissive_env None) (sample_module ''.b'' ''(module b)'') empty_world =
     Inr (print_stderr (Error_create_directory (JStr [])) empty_world) \<and>
   files (print_stderr (Error_create_directory (JStr [])) empty_world) ''/b.pact'' = None"
  by (simp add: process_module_def sample_module_def split_name_def rsplit1_def write_module_def
      py_makedirs_def os_makedirs_def permissive_env_def empty_world_def print_stderr_def
      sublist_singleton)

text \<open>
  Claim C7. Take a module that passed the validation of its fields and whose name was
  split without an exception. If creating the directory raises, the error is printed,
  nothing is written for the module, and the loop goes on with the next module. If the
  write raises, the error is printed and the loop goes on as well. In no case does
  processing the module stop the run.
\<close>

theorem directory_and_write_failures_are_skipped:
  assumes "py_get modul ''name'' = Inr name" "py_get modul ''code'' = Inr code"
    and "py_truthy name" "py_truthy code"
    and "split_name name = Inr (namespace, module_name)"
  shows
    "(py_makedirs env namespace True w = Inl e \<longrightarrow>
        process_module env modul w = Inr (print_stderr (Error_create_directory namespace) w) \<and>
        files (print_stderr (Error_create_directory namespace) w) = files w \<and>
        process_modules env (modul # rest) w =
          process_modules env rest (print_stderr (Error_create_directory namespace) w)) \<and>
     (py_makedirs env namespace True w = Inr w1 \<and>
      py_path_join namespace (module_name @ ''.pact'') = Inr filename \<and>
      write_file env filename code w1 = Inl (e, w2) \<longrightarrow>
        process_module env modul w = Inr (print_stderr (Error_write_file filename) w2) \<and>
        process_modules env (modul # rest) w =
          process_modules env rest (print_stderr (Error_write_file filename) w2)) \<and>
     (\<exists>w'. process_module env modul w = Inr w')"
proof -
  have dir_fails: "process_module env modul w =
      Inr (print_stderr (Error_create_directory namespace) w)"
    if "py_makedirs env namespace True w = Inl e"
    using that assms by (simp add: process_module_def write_module_def)
  have write_fails: "process_module env modul w =
      Inr (print_stderr (Error_write_file filename) w2)"
    if "py_makedirs env namespace True w = Inr w1 \<and>
      py_path_join namespace (module_name @ ''.pact'') = Inr filename \<and>
      write_file env filename code w1 = Inl (e, w2)"
    using that assms by (simp add: process_module_def write_module_def)
  have returns: "\<exists>w'. process_module env modul w = Inr w'"
  proof (cases "py_makedirs env namespace True w")
    case (Inl e')
    then show ?thesis using assms by (simp add: process_module_def write_module_def)
  next
    case (Inr w1')
    then obtain p where "namespace = JStr p" using py_makedirs_string by blast
    with Inr show ?thesis using assms
      by (auto simp: process_module_def write_module_def py_path_join_def split: sum.splits)
  qed
  show ?thesis
    using dir_fails write_fails returns by (simp add: print_stderr_simps)
qed

theorem directory_and_write_failures_are_skipped_witness:
  "process_modules ((permissive_env None)\<lparr>mkdir_denied := (\<lambda>p. p = ''locked'')\<rparr>)
     [sample_module ''locked.a'' ''(module a)'', sample_module ''ns.b'' ''(module b)''] empty_world =
     Inr \<lparr>files = [''ns/b.pact'' \<mapsto> ''(module b)''], dirs = {''ns''},
          stderr = [Error_create_directory (JStr ''locked'')]\<rparr> \<and>
   process_modules ((permissive_env None)\<lparr>open_denied := (\<lambda>p. p = ''ns/a.pact'')\<rparr>)
     [sample_module ''ns.a'' ''(module a)'', sample_module ''ns.b'' ''(module b)''] empty_world =
     Inr \<lparr>files = [''ns/b.pact'' \<mapsto> ''(module b)''], dirs = {''ns''},
          stderr = [Error_write_file ''ns/a.pact'']\<rparr>"
proof -
  let ?env1 = "(permissive_env None)\<lparr>mkdir_denied := (\<lambda>p. p = ''locked'')\<rparr>"
  let ?env2 = "(permissive_env None)\<lparr>open_denied := (\<lambda>p. p = ''ns/a.pact'')\<rparr>"
  let ?ma = "sample_module ''locked.a'' ''(module a)''"
  let ?na = "sample_module ''ns.a'' ''(module a)''"
  let ?mb = "sample_module ''ns.b'' ''(module b)''"
  have g: "py_get ?ma ''name'' = Inr (JStr ''locked.a'')" "py_get ?ma ''code'' = Inr (JStr ''(module a)'')"
    "py_get ?na ''name'' = Inr (JStr ''ns.a'')" "py_get ?na ''code'' = Inr (JStr ''(module a)'')"
    by (simp_all add: sample_module_def)
  have t: "py_truthy (JStr ''locked.a'')" "py_truthy (JStr ''(module a)'')" "py_truthy (JStr ''ns.a'')"
    by simp_all
  have s: "split_name (JStr ''locked.a'') = Inr (JStr ''locked'', ''a'')"
    "split_name (JStr ''ns.a'') = Inr (JStr ''ns'', ''a'')"
    by (simp_all add: split_name_def rsplit1_def sublist_singleton)
  have d1: "py_makedirs ?env1 (JStr ''locked'') True empty_world = Inl OSError"
    by (simp add: py_makedirs_def os_makedirs_def permissive_env_def empty_world_def)
  have d2: "py_makedirs ?env2 (JStr ''ns'') True empty_world =
      Inr \<lparr>files = Map.empty, dirs = {''ns''}, stderr = []\<rparr>"
    by (simp add: py_makedirs_def os_makedirs_def permissive_env_def empty_world_def)
  have j2: "py_path_join (JStr ''ns'') (''a'' @ ''.pact'') = Inr ''ns/a.pact''"
    by (simp add: py_path_join_def os_path_join_def)
  have w2: "write_file ?env2 ''ns/a.pact'' (JStr ''(module a)'')
      \<lparr>files = Map.empty, dirs = {''ns''}, stderr = []\<rparr> =
      Inl (OSError, \<lparr>files = Map.empty, dirs = {''ns''}, stderr = []\<rparr>)"
    by (simp add: write_file_def open_w_def permissive_env_def)
  have r1: "process_modules ?env1 [?mb] (print_stderr (Error_create_directory (JStr ''locked'')) empty_world)
      = Inr \<lparr>files = [''ns/b.pact'' \<mapsto> ''(module b)''], dirs = {''ns''},
          stderr = [Error_create_directory (JStr ''locked'')]\<rparr>"
    by (simp add: process_module_def sample_module_def split_name_def rsplit1_def write_module_def
      py_makedirs_def os_makedirs_def py_path_join_def os_path_join_def write_file_def open_w_def
      f_write_def permissive_env_def empty_world_def print_stderr_def sublist_singleton)
  have r2: "process_modules ?env2 [?mb] (print_stderr (Error_write_file ''ns/a.pact'')
        \<lparr>files = Map.empty, dirs = {''ns''}, stderr = []\<rparr>)
      = Inr \<lparr>files = [''ns/b.pact'' \<mapsto> ''(module b)''], dirs = {''ns''},
          stderr = [Error_write_file ''ns/a.pact'']\<rparr>"
    by (simp add: process_module_def sample_module_def split_name_def rsplit1_def write_module_def
      py_makedirs_def os_makedirs_def py_path_join_def os_path_join_def write_file_def open_w_def
      f_write_def permissive_env_def print_stderr_def sublist_singleton)
  show ?thesis
    using r1 r2 d1 d2 j2 w2
      directory_and_write_failures_are_skipped [OF g(1,2) t(1,2) s(1), where env = ?env1
        and w = empty_world and e = OSError and rest = "[?mb]"]
      directory_and_write_failures_are_skipped [OF g(3,4) t(3,2) s(2), where env = ?env2
        and w = empty_world and e = OSError and rest = "[?mb]" and filename = "''ns/a.pact''"
        and ?w1.0 = "\<lparr>files = Map.empty, dirs = {''ns''}, stderr = []\<rparr>"
        and ?w2.0 = "\<lparr>files = Map.empty, dirs = {''ns''}, stderr = []\<rparr>"]
    by simp
qed




section \<open>Properties of the main program\<close>

subsection \<open>Every early stop has status 1\<close>

lemma process_module_stop:
  "process_module env modul w = Inl (s, w') \<Longrightarrow> \<exists>e. s = Uncaught e"
  by (auto simp: process_module_def write_module_def split: sum.splits if_splits prod.splits)

lemma process_modules_stop:
  "process_modules env ms w = Inl (s, w') \<Longrightarrow> \<exists>e. s = Uncaught e"
proof (induction ms arbitrary: w)
  case Nil
  then show ?case by simp
next
  case (Cons m ms)
  then show ?case
    by (auto split: sum.splits dest: process_module_stop)
qed

lemma process_entry_stop:
  "process_entry env entry w = Inl (s, w') \<Longrightarrow> \<exists>e. s = Uncaught e"
  by (auto simp: process_entry_def split: sum.splits exn.splits json.splits
      dest: process_modules_stop)

lemma process_entries_stop:
  "process_entries env es w = Inl (s, w') \<Longrightarrow> \<exists>e. s = Uncaught e"
proof (induction es arbitrary: w)
  case Nil
  then show ?case by simp
next
  case (Cons x xs)
  then show ?case
    by (auto split: sum.splits dest: process_entry_stop)
qed

lemma parse_and_create_files_stop:
  "parse_and_create_files env out url w = Inl (s, w') \<Longrightarrow> exit_status s = 1"
  by (auto simp: parse_and_create_files_def sys_exit_def
      split: option.splits sum.splits if_splits json.splits dest: process_entries_stop)

lemma generate_json_stop:
  "generate_json env tp jp w = Inl (s, w') \<Longrightarrow> exit_status s = 1"
  by (auto simp: generate_json_def sys_exit_def Let_def split: prod.splits if_splits)

lemma run_kda_local_stop:
  "run_kda_local env jp url w = Inl (s, w') \<Longrightarrow> exit_status s = 1"
  by (auto simp: run_kda_local_def sys_exit_def Let_def split: prod.splits if_splits)

lemma stages_stop:
  "stages env a w = Inl (s, w') \<Longrightarrow> exit_status s = 1"
  by (auto simp: stages_def sys_exit_def Let_def split: sum.splits if_splits prod.splits
      dest: parse_and_create_files_stop generate_json_stop run_kda_local_stop)

lemma run_exit_status:
  "fst (run env a w) = (case stages env a w of Inr w' \<Rightarrow> 0 | Inl s \<Rightarrow> 1)"
proof (cases "stages env a w")
  case (Inl x)
  obtain s w' where x: "x = (s, w')" by (cases x)
  with Inl have "exit_status s = 1" using stages_stop by blast
  with Inl x show ?thesis
    by (cases s) (simp_all add: run_def main_def)
next
  case (Inr w')
  then show ?thesis by (simp add: run_def main_def)
qed

lemma read_file_isfile: "read_file env p w = Inr t \<Longrightarrow> os_path_isfile p w"
  by (auto simp: read_file_def os_path_isfile_def split: if_splits option.splits)

lemma stages_read:
  assumes "read_file env (template_path env) w = Inr t"
  shows "stages env a w =
     (case write_file env (substituted_yaml_path env)
             (JStr (substitute_placeholders t (substitutions a))) w of
        Inl (e, w1) \<Rightarrow> sys_exit 1 (print_stderr Error_write_substituted w1)
      | Inr w1 \<Rightarrow>
          (case generate_json env (substituted_yaml_path env) (json_file env) w1 of
             Inl s \<Rightarrow> Inl s
           | Inr w2 \<Rightarrow>
               (case run_kda_local env (json_file env) (args_network_url a) w2 of
                  Inl s \<Rightarrow> Inl s
                | Inr (local_output, w3) \<Rightarrow>
                    parse_and_create_files env local_output (args_network_url a) w3)))"
  using assms read_file_isfile [OF assms] by (simp add: stages_def)

text \<open>The definitions a run on the sample inputs unfolds.\<close>

lemmas model_defs =
  run_def main_def stages_def cleanup_def template_path_def substituted_yaml_path_def json_file_def
  substitutions_def os_path_abspath_def os_path_join_def os_path_isfile_def read_file_def
  write_file_def open_w_def f_write_def os_remove_def generate_json_def run_kda_local_def
  run_command_def kda_stub_def parse_and_create_files_def process_entry_def result_data_of_def
  process_module_def split_name_def rsplit1_def write_module_def py_makedirs_def os_makedirs_def
  py_path_join_def sys_exit_def print_stderr_def sublist_singleton
  substitute_placeholders_def replacer_def pattern_match_def is_word_def
  permissive_env_def sample_args_def template_world_def sample_response_def sample_entry_def
  sample_module_def empty_world_def failing_shell_def idle_shell_def

subsection \<open>Claims about exit codes and the clean-up\<close>

text \<open>
  Claim C6. The exit status of the process is 0 when the stages before the clean-up
  return, and 1 whenever they stop. They stop, with status 1, when the template is not a
  file, when reading it raises, when the substituted file cannot be written, when
  \<^verbatim>\<open>generate_json\<close>, \<^verbatim>\<open>run_kda_local\<close> or \<^verbatim>\<open>parse_and_create_files\<close> stops; and when
  all of them return, the status is 0. The generate step stops with \<^verbatim>\<open>sys.exit(1)\<close>
  both when the tool returns nonzero and when the tool returns zero and the JSON file is
  absent afterwards; the execute step stops with \<^verbatim>\<open>sys.exit(1)\<close> on a nonzero return; the
  extractor stops with \<^verbatim>\<open>sys.exit(1)\<close> on a parse failure, a missing network URL key and
  a payload that is not a list.
\<close>

theorem exit_codes:
  "fst (run env a w) = (case stages env a w of Inr w' \<Rightarrow> 0 | Inl s \<Rightarrow> 1) \<and>
   (\<not> os_path_isfile (template_path env) w \<longrightarrow> fst (run env a w) = 1) \<and>
   (read_file env (template_path env) w = Inl e \<longrightarrow> fst (run env a w) = 1) \<and>
   (read_file env (template_path env) w = Inr t \<and>
    write_file env (substituted_yaml_path env)
      (JStr (substitute_placeholders t (substitutions a))) w = Inl (e, w1) \<longrightarrow>
      fst (run env a w) = 1) \<and>
   (read_file env (template_path env) w = Inr t \<and>
    write_file env (substituted_yaml_path env)
      (JStr (substitute_placeholders t (substitutions a))) w = Inr w1 \<longrightarrow>
      (generate_json env (substituted_yaml_path env) (json_file env) w1 = Inl x \<longrightarrow>
         fst (run env a w) = 1) \<and>
      (generate_json env (substituted_yaml_path env) (json_file env) w1 = Inr w2 \<longrightarrow>
         (run_kda_local env (json_file env) (args_network_url a) w2 = Inl x \<longrightarrow>
            fst (run env a w) = 1) \<and>
         (run_kda_local env (json_file env) (args_network_url a) w2 = Inr (out, w3) \<longrightarrow>
            (parse_and_create_files env out (args_network_url a) w3 = Inl x \<longrightarrow>
               fst (run env a w) = 1) \<and>
            (parse_and_create_files env out (args_network_url a) w3 = Inr w4 \<longrightarrow>
               fst (run env a w) = 0)))) \<and>
   (run_command env (kda_gen_command tp jp) v = ((rc, sout, serr), v1) \<longrightarrow>
      (rc \<noteq> 0 \<longrightarrow>
         generate_json env tp jp v = Inl (SystemExit 1, print_stderr (Error_generate_json serr) v1)) \<and>
      (rc = 0 \<and> \<not> os_path_isfile jp v1 \<longrightarrow>
         generate_json env tp jp v = Inl (SystemExit 1, print_stderr Error_json_not_created v1)) \<and>
      (rc = 0 \<and> os_path_isfile jp v1 \<longrightarrow> generate_json env tp jp v = Inr v1)) \<and>
   (run_command env (kda_local_command jp url) v = ((rc, sout, serr), v1) \<longrightarrow>
      (rc \<noteq> 0 \<longrightarrow>
         run_kda_local env jp url v = Inl (SystemExit 1, print_stderr (Error_kda_local serr) v1)) \<and>
      (rc = 0 \<longrightarrow> run_kda_local env jp url v = Inr (sout, v1))) \<and>
   (json_loads env sout = None \<longrightarrow>
      parse_and_create_files env sout url v = Inl (SystemExit 1, print_stderr Error_parse_json v)) \<and>
   (json_loads env sout = Some (JObj kvs) \<and> map_of kvs url = None \<longrightarrow>
      parse_and_create_files env sout url v =
        Inl (SystemExit 1, print_stderr (Error_url_not_found url) v)) \<and>
   (json_loads env sout = Some (JObj kvs) \<and> map_of kvs url = Some d \<and> (\<forall>entries. d \<noteq> JArr entries) \<longrightarrow>
      parse_and_create_files env sout url v = Inl (SystemExit 1, print_stderr Error_expected_list v))"
proof -
  note st = run_exit_status [of env a w]
  have 1: "\<not> os_path_isfile (template_path env) w \<longrightarrow> fst (run env a w) = 1"
    by (simp add: st stages_def sys_exit_def)
  have 2: "read_file env (template_path env) w = Inl e \<longrightarrow> fst (run env a w) = 1"
    by (simp add: st stages_def sys_exit_def)
  have 3: "read_file env (template_path env) w = Inr t \<and>
    write_file env (substituted_yaml_path env)
      (JStr (substitute_placeholders t (substitutions a))) w = Inl (e, w1) \<longrightarrow>
      fst (run env a w) = 1"
    by (auto simp: st stages_read sys_exit_def)
  have 4: "read_file env (template_path env) w = Inr t \<and>
    write_file env (substituted_yaml_path env)
      (JStr (substitute_placeholders t (substitutions a))) w = Inr w1 \<longrightarrow>
      (generate_json env (substituted_yaml_path env) (json_file env) w1 = Inl x \<longrightarrow>
         fst (run env a w) = 1) \<and>
      (generate_json env (substituted_yaml_path env) (json_file env) w1 = Inr w2 \<longrightarrow>
         (run_kda_local env (json_file env) (args_network_url a) w2 = Inl x \<longrightarrow>
            fst (run env a w) = 1) \<and>
         (run_kda_local env (json_file env) (args_network_url a) w2 = Inr (out, w3) \<longrightarrow>
            (parse_and_create_files env out (args_network_url a) w3 = Inl x \<longrightarrow>
               fst (run env a w) = 1) \<and>
            (parse_and_create_files env out (args_network_url a) w3 = Inr w4 \<longrightarrow>
               fst (run env a w) = 0)))"
    by (auto simp: st stages_read)
  have 5: "run_command env (kda_gen_command tp jp) v = ((rc, sout, serr), v1) \<longrightarrow>
      (rc \<noteq> 0 \<longrightarrow>
         generate_json env tp jp v = Inl (SystemExit 1, print_stderr (Error_generate_json serr) v1)) \<and>
      (rc = 0 \<and> \<not> os_path_isfile jp v1 \<longrightarrow>
         generate_json env tp jp v = Inl (SystemExit 1, print_stderr Error_json_not_created v1)) \<and>
      (rc = 0 \<and> os_path_isfile jp v1 \<longrightarrow> generate_json env tp jp v = Inr v1)"
    by (simp add: generate_json_def sys_exit_def)
  have 6: "run_command env (kda_local_command jp url) v = ((rc, sout, serr), v1) \<longrightarrow>
      (rc \<noteq> 0 \<longrightarrow>
         run_kda_local env jp url v = Inl (SystemExit 1, print_stderr (Error_kda_local serr) v1)) \<and>
      (rc = 0 \<longrightarrow> run_kda_local env jp url v = Inr (sout, v1))"
    by (simp add: run_kda_local_def sys_exit_def)
  have 7: "json_loads env sout = None \<longrightarrow>
      parse_and_create_files env sout url v = Inl (SystemExit 1, print_stderr Error_parse_json v)"
    by (simp add: parse_and_create_files_def sys_exit_def)
  have 8: "json_loads env sout = Some (JObj kvs) \<and> map_of kvs url = None \<longrightarrow>
      parse_and_create_files env sout url v =
        Inl (SystemExit 1, print_stderr (Error_url_not_found url) v)"
    by (simp add: parse_and_create_files_def sys_exit_def)
  have 9: "json_loads env sout = Some (JObj kvs) \<and> map_of kvs url = Some d \<and> (\<forall>entries. d \<noteq> JArr entries) \<longrightarrow>
      parse_and_create_files env sout url v = Inl (SystemExit 1, print_stderr Error_expected_list v)"
    by (cases d) (simp_all add: parse_and_create_files_def sys_exit_def)
  from st 1 2 3 4 5 6 7 8 9 show ?thesis by blast
qed

text \<open>
  A run for each case: full success, no template, an unreadable template, an unwritable
  substituted file, a failing tool, a tool that writes no output file, a response that
  is no JSON, a response without the URL key, and one whose payload is no list.
\<close>

theorem exit_codes_witness:
  "fst (run (permissive_env (Some sample_response)) sample_args template_world) = 0 \<and>
   fst (run (permissive_env (Some sample_response)) sample_args empty_world) = 1 \<and>
   fst (run ((permissive_env (Some sample_response))\<lparr>read_denied := (\<lambda>p. True)\<rparr>)
          sample_args template_world) = 1 \<and>
   fst (run ((permissive_env (Some sample_response))\<lparr>open_denied := (\<lambda>p. True)\<rparr>)
          sample_args template_world) = 1 \<and>
   fst (run ((permissive_env (Some sample_response))\<lparr>shell := failing_shell\<rparr>)
          sample_args template_world) = 1 \<and>
   fst (run ((permissive_env (Some sample_response))\<lparr>shell := idle_shell\<rparr>)
          sample_args template_world) = 1 \<and>
   fst (run (permissive_env None) sample_args template_world) = 1 \<and>
   fst (run (permissive_env (Some (JObj []))) sample_args template_world) = 1 \<and>
   fst (run (permissive_env (Some (JObj [(''https://testnet.mindsend.xyz'', JNull)])))
          sample_args template_world) = 1"
proof -
  let ?E = "permissive_env (Some sample_response)"
  let ?t = "''chain: {{{chain}}}''"
  let ?sub = "JStr (substitute_placeholders ?t (substitutions sample_args))"
  define w1 where "w1 = projr (write_file ?E (substituted_yaml_path ?E) ?sub template_world)"
  define w2 where "w2 = projr (generate_json ?E (substituted_yaml_path ?E) (json_file ?E) w1)"
  define w3 where "w3 = snd (projr (run_kda_local ?E (json_file ?E) (args_network_url sample_args) w2))"
  define w4 where "w4 = projr (parse_and_create_files ?E ''response'' (args_network_url sample_args) w3)"
  have r: "read_file ?E (template_path ?E) template_world = Inr ?t"
    by (simp add: model_defs)
  have w: "write_file ?E (substituted_yaml_path ?E) ?sub template_world = Inr w1"
    unfolding w1_def by (simp add: model_defs)
  have g: "generate_json ?E (substituted_yaml_path ?E) (json_file ?E) w1 = Inr w2"
    unfolding w2_def w1_def by (simp add: model_defs)
  have l: "run_kda_local ?E (json_file ?E) (args_network_url sample_args) w2 = Inr (''response'', w3)"
    unfolding w3_def w2_def w1_def by (simp add: model_defs)
  have p: "parse_and_create_files ?E ''response'' (args_network_url sample_args) w3 = Inr w4"
    unfolding w4_def w3_def w2_def w1_def by (simp add: model_defs)
  have ok: "fst (run ?E sample_args template_world) = 0"
    using exit_codes [where env = ?E and a = sample_args and w = template_world and t = ?t
        and ?w1.0 = w1 and ?w2.0 = w2 and out = "''response''" and ?w3.0 = w3 and ?w4.0 = w4]
      r w g l p
    by blast
  have missing: "\<not> os_path_isfile (template_path ?E) empty_world"
    by (simp add: model_defs)
  have no_template: "fst (run ?E sample_args empty_world) = 1"
    using exit_codes [where env = ?E and a = sample_args and w = empty_world] missing by blast
  let ?R = "?E\<lparr>read_denied := (\<lambda>p. True)\<rparr>"
  have "read_file ?R (template_path ?R) template_world = Inl OSError"
    by (simp add: model_defs)
  then have unreadable: "fst (run ?R sample_args template_world) = 1"
    using exit_codes [where env = ?R and a = sample_args and w = template_world and e = OSError]
    by blast
  let ?O = "?E\<lparr>open_denied := (\<lambda>p. True)\<rparr>"
  have "read_file ?O (template_path ?O) template_world = Inr ?t"
    "write_file ?O (substituted_yaml_path ?O) ?sub template_world = Inl (OSError, template_world)"
    by (simp_all add: model_defs)
  then have unwritable: "fst (run ?O sample_args template_world) = 1"
    using exit_codes [where env = ?O and a = sample_args and w = template_world and e = OSError
        and t = ?t and ?w1.0 = template_world]
    by blast
  let ?F = "?E\<lparr>shell := failing_shell\<rparr>"
  have "run_command ?F (kda_gen_command (substituted_yaml_path ?F) (json_file ?F)) w1 =
      ((1, [], ''kda: failed''), w1)"
    unfolding w1_def by (simp add: model_defs)
  moreover have "(1::int) \<noteq> 0" by simp
  ultimately have gf: "generate_json ?F (substituted_yaml_path ?F) (json_file ?F) w1 =
      Inl (SystemExit 1, print_stderr (Error_generate_json ''kda: failed'') w1)"
    using exit_codes [where env = ?F and tp = "substituted_yaml_path ?F" and jp = "json_file ?F"
        and v = w1 and rc = 1 and sout = "[]" and serr = "''kda: failed''" and ?v1.0 = w1]
    by blast
  have "read_file ?F (template_path ?F) template_world = Inr ?t"
    "write_file ?F (substituted_yaml_path ?F) ?sub template_world = Inr w1"
    unfolding w1_def by (simp_all add: model_defs)
  then have tool_fails: "fst (run ?F sample_args template_world) = 1"
    using gf exit_codes [where env = ?F and a = sample_args and w = template_world and t = ?t
        and ?w1.0 = w1
        and x = "(SystemExit 1, print_stderr (Error_generate_json ''kda: failed'') w1)"]
    by blast
  let ?I = "?E\<lparr>shell := idle_shell\<rparr>"
  have "run_command ?I (kda_gen_command (substituted_yaml_path ?I) (json_file ?I)) w1 =
      ((0, [], []), w1)" "\<not> os_path_isfile (json_file ?I) w1"
    unfolding w1_def by (simp_all add: model_defs)
  then have gi: "generate_json ?I (substituted_yaml_path ?I) (json_file ?I) w1 =
      Inl (SystemExit 1, print_stderr Error_json_not_created w1)"
    using exit_codes [where env = ?I and tp = "substituted_yaml_path ?I" and jp = "json_file ?I"
        and v = w1 and rc = 0 and sout = "[]" and serr = "[]" and ?v1.0 = w1]
    by blast
  have "read_file ?I (template_path ?I) template_world = Inr ?t"
    "write_file ?I (substituted_yaml_path ?I) ?sub template_world = Inr w1"
    unfolding w1_def by (simp_all add: model_defs)
  then have no_output: "fst (run ?I sample_args template_world) = 1"
    using gi exit_codes [where env = ?I and a = sample_args and w = template_world and t = ?t
        and ?w1.0 = w1 and x = "(SystemExit 1, print_stderr Error_json_not_created w1)"]
    by blast
  have bad_json: "fst (run (permissive_env None) sample_args template_world) = 1"
    using exit_codes [where env = "permissive_env None" and a = sample_args and w = template_world]
    by (simp add: model_defs)
  have no_key: "fst (run (permissive_env (Some (JObj []))) sample_args template_world) = 1"
    using exit_codes [where env = "permissive_env (Some (JObj []))" and a = sample_args
        and w = template_world]
    by (simp add: model_defs)
  have no_list: "fst (run (permissive_env (Some (JObj [(''https://testnet.mindsend.xyz'', JNull)])))
          sample_args template_world) = 1"
    using exit_codes [where
        env = "permissive_env (Some (JObj [(''https://testnet.mindsend.xyz'', JNull)]))"
        and a = sample_args and w = template_world]
    by (simp add: model_defs)
  show ?thesis
    using ok no_template unreadable unwritable tool_fails no_output bad_json no_key no_list
    by simp
qed

lemma cleanup_stderr:
  "stderr (cleanup env jp yp w) = stderr w \<or>
   stderr (cleanup env jp yp w) = stderr w @ [Warning_delete_temporary]"
  by (auto simp: cleanup_def os_remove_def print_stderr_def split: sum.splits if_splits)

text \<open>
  Claim C10. When removing the generated JSON file raises, the clean-up is exactly one
  warning: no file is removed, so the substituted template file is still there. The
  clean-up prints at most one warning in every case. And whenever the stages before it
  return, the process ends with status 0 in the world the clean-up leaves, whether or
  not a removal failed.
\<close>

theorem cleanup_shares_one_handler:
  "(os_remove env jp w = Inl e \<longrightarrow>
      cleanup env jp yp w = print_stderr Warning_delete_temporary w \<and>
      files (cleanup env jp yp w) = files w \<and>
      files (cleanup env jp yp w) yp = files w yp \<and>
      stderr (cleanup env jp yp w) = stderr w @ [Warning_delete_temporary]) \<and>
   (stderr (cleanup env jp yp w) = stderr w \<or>
    stderr (cleanup env jp yp w) = stderr w @ [Warning_delete_temporary]) \<and>
   (stages env a w0 = Inr w \<longrightarrow>
      run env a w0 = (0, cleanup env (json_file env) (substituted_yaml_path env) w))"
  using cleanup_stderr [of env jp yp w]
  by (auto simp: cleanup_def print_stderr_def run_def main_def)

text \<open>
  The request file cannot be removed: the substituted file stays, one warning is
  printed, and the run as a whole still ends with status 0.
\<close>

theorem cleanup_shares_one_handler_witness:
  "os_remove (json_locked_env None) ''/work/temp_fetch_module_code.json'' temp_world = Inl OSError \<and>
   cleanup (json_locked_env None) ''/work/temp_fetch_module_code.json''
     ''/work/substituted_config.ktpl'' temp_world =
     print_stderr Warning_delete_temporary temp_world \<and>
   files (cleanup (json_locked_env None) ''/work/temp_fetch_module_code.json''
     ''/work/substituted_config.ktpl'' temp_world) ''/work/substituted_config.ktpl'' =
     Some ''chain: 0'' \<and>
   stderr (cleanup (json_locked_env None) ''/work/temp_fetch_module_code.json''
     ''/work/substituted_config.ktpl'' temp_world) = [Warning_delete_temporary] \<and>
   fst (run (json_locked_env (Some sample_response)) sample_args template_world) = 0 \<and>
   stderr (snd (run (json_locked_env (Some sample_response)) sample_args template_world)) =
     [Warning_delete_temporary]"
proof -
  let ?E = "json_locked_env (Some sample_response)"
  have rm: "os_remove (json_locked_env None) ''/work/temp_fetch_module_code.json'' temp_world =
      Inl OSError"
    by (simp add: os_remove_def json_locked_env_def permissive_env_def temp_world_def)
  define w4 where "w4 = projr (stages ?E sample_args template_world)"
  have st: "stages ?E sample_args template_world = Inr w4"
    unfolding w4_def by (simp add: model_defs json_locked_env_def)
  have cl: "stderr (cleanup ?E (json_file ?E) (substituted_yaml_path ?E) w4) =
      [Warning_delete_temporary]"
    unfolding w4_def by (simp add: model_defs json_locked_env_def)
  have a: "cleanup (json_locked_env None) ''/work/temp_fetch_module_code.json''
        ''/work/substituted_config.ktpl'' temp_world =
      print_stderr Warning_delete_temporary temp_world \<and>
    files (cleanup (json_locked_env None) ''/work/temp_fetch_module_code.json''
        ''/work/substituted_config.ktpl'' temp_world) ''/work/substituted_config.ktpl'' =
      files temp_world ''/work/substituted_config.ktpl'' \<and>
    stderr (cleanup (json_locked_env None) ''/work/temp_fetch_module_code.json''
        ''/work/substituted_config.ktpl'' temp_world) =
      stderr temp_world @ [Warning_delete_temporary]"
    using rm
      cleanup_shares_one_handler [where env = "json_locked_env None"
        and jp = "''/work/temp_fetch_module_code.json''" and yp = "''/work/substituted_config.ktpl''"
        and w = temp_world and e = OSError]
    by blast
  have b: "run ?E sample_args template_world =
      (0, cleanup ?E (json_file ?E) (substituted_yaml_path ?E) w4)"
    using st
      cleanup_shares_one_handler [where env = ?E and a = sample_args and ?w0.0 = template_world
        and w = w4]
    by blast
  have f: "files temp_world ''/work/substituted_config.ktpl'' = Some ''chain: 0''"
    "stderr temp_world = []"
    by (simp_all add: temp_world_def)
  show ?thesis
    using rm a b cl f by (simp add: print_stderr_simps)
qed

end
